theory Spec2Isabelle
  imports Complex_Main "HOL-Library.Word"
begin

unbundle bit_operations_syntax

section \<open>Conventions of the embedding\<close>

text \<open>
  The firmware runs on a 32-bit target: \<^verbatim>\<open>uint\<close> is a 32-bit word, \<^verbatim>\<open>uint8_t\<close> an
  8-bit word, \<^verbatim>\<open>absolute_time_t\<close> a 64-bit count of microseconds since boot, and
  \<^verbatim>\<open>int64_t\<close> values are read as integers (\<open>sint\<close> of a 64-bit word where they come
  from a subtraction of timestamps).

  \<^verbatim>\<open>float\<close> and \<^verbatim>\<open>double\<close> values are modelled by \<open>real\<close>. The sampler and the
  transform of the lossy peak filter compute with exact arithmetic: the theorems
  about them speak of the control structure and of the order and equality of the
  values the code computes. Where an integer or a text is made from a
  floating-point value (the hold delay in microseconds in the parser, the two
  fields in the serialiser) the operations round to the binary format as the
  hardware does (\<open>float_rnd\<close>, \<open>double_rnd\<close> below). Infinities and NaN are outside
  the model.

  The clock \<^verbatim>\<open>get_absolute_time()\<close> is an input of each operation: the functions
  below take the time read by the call as an argument.

  Arrays are lists. A read or write outside an array, and a call through a null
  context pointer, have no defined behaviour in C; the model returns \<open>None\<close> or a
  fault value there instead of a result.
\<close>

type_synonym uint = "32 word"
type_synonym uint8_t = "8 word"
type_synonym absolute_time_t = "64 word"

text \<open>
  \<^verbatim>\<open>absolute_time_diff_us(from, to)\<close> of the Pico SDK: the signed reading of the
  64-bit difference \<^verbatim>\<open>to - from\<close>.
\<close>

definition absolute_time_diff_us :: "absolute_time_t \<Rightarrow> absolute_time_t \<Rightarrow> int" where
  "absolute_time_diff_us t_from t_to = sint (t_to - t_from)"

section \<open>Tachometer inputs (tacho.c)\<close>

text \<open>
  \<^verbatim>\<open>FAN_MAX_COUNT\<close> is declared in fanpico.h, which is not part of the sources at
  hand; the initialiser of \<^verbatim>\<open>fan_gpio_tacho_map[FAN_MAX_COUNT]\<close> lists the eight pins
  FAN1 .. FAN8, so the constant is taken to be 8.
\<close>

definition FAN_MAX_COUNT :: nat where
  "FAN_MAX_COUNT = 8"

text \<open>The global variables of tacho.c that the handler and the sampler touch.\<close>

record tacho_state =
  gpio_fan_tacho_map :: "uint8_t list"        \<comment> \<open>\<^verbatim>\<open>uint8_t gpio_fan_tacho_map[32]\<close>\<close>
  fan_tacho_counters :: "uint list"           \<comment> \<open>\<^verbatim>\<open>volatile uint fan_tacho_counters[FAN_MAX_COUNT]\<close>\<close>
  fan_tacho_counters_last :: "uint list"      \<comment> \<open>\<^verbatim>\<open>uint fan_tacho_counters_last[FAN_MAX_COUNT]\<close>\<close>
  fan_tacho_last_read :: absolute_time_t
  fan_tacho_freq :: "real list"               \<comment> \<open>\<^verbatim>\<open>float fan_tacho_freq[FAN_MAX_COUNT]\<close>\<close>

text \<open>
  The shape of the globals as declared: the array sizes, and every entry of the
  pin map either 0 or a channel index plus one. \<^verbatim>\<open>setup_tacho_inputs\<close> establishes
  it, and the handler and the sampler keep it (lemmas \<open>setup_tacho_inputs_ok\<close>,
  \<open>callback_ok\<close> and \<open>update_ok\<close> below).
\<close>

definition tacho_state_ok :: "tacho_state \<Rightarrow> bool" where
  "tacho_state_ok st \<longleftrightarrow>
     length (gpio_fan_tacho_map st) = 32 \<and>
     length (fan_tacho_counters st) = FAN_MAX_COUNT \<and>
     length (fan_tacho_counters_last st) = FAN_MAX_COUNT \<and>
     length (fan_tacho_freq st) = FAN_MAX_COUNT \<and>
     list_all (\<lambda>e. unat e \<le> FAN_MAX_COUNT) (gpio_fan_tacho_map st)"

subsection \<open>Setting up the inputs\<close>

text \<open>
  \<^verbatim>\<open>setup_tacho_inputs()\<close>, as far as it writes the globals: the pin map is cleared,
  then for each fan \<open>i\<close> the entry of its pin is set to \<open>1 + i\<close> and its counters and
  frequency are zeroed; at the end the time of the last read is set. The pins
  \<^verbatim>\<open>FAN1_TACHO_READ_PIN\<close> .. of \<^verbatim>\<open>fan_gpio_tacho_map\<close> come from a board header that is
  not at hand and are a parameter. The result is \<open>None\<close> where a pin would index
  outside the 32 entries of the map. The calls that configure the hardware have no
  effect on the globals.
\<close>

definition setup_tacho_inputs :: "uint8_t list \<Rightarrow> absolute_time_t \<Rightarrow> tacho_state option" where
  "setup_tacho_inputs fan_gpio_tacho_map t_now =
     (if length fan_gpio_tacho_map = FAN_MAX_COUNT \<and>
         list_all (\<lambda>pin. unat pin < 32) fan_gpio_tacho_map
      then Some
        \<lparr>gpio_fan_tacho_map =
           fold (\<lambda>i m. m[unat (fan_gpio_tacho_map ! i) := of_nat (1 + i)])
                [0..<FAN_MAX_COUNT] (replicate 32 0),
         fan_tacho_counters = replicate FAN_MAX_COUNT 0,
         fan_tacho_counters_last = replicate FAN_MAX_COUNT 0,
         fan_tacho_last_read = t_now,
         fan_tacho_freq = replicate FAN_MAX_COUNT 0\<rparr>
      else None)"

subsection \<open>The edge interrupt handler\<close>

text \<open>
  \<^verbatim>\<open>fan_tacho_read_callback(gpio, events)\<close>: the map is indexed by \<^verbatim>\<open>gpio & 0x1f\<close>;
  a non-zero entry \<^verbatim>\<open>fan\<close> increments \<^verbatim>\<open>fan_tacho_counters[fan-1]\<close>. The result is
  \<open>None\<close> where the C code would index outside one of the two arrays.
\<close>

definition fan_tacho_read_callback :: "uint \<Rightarrow> tacho_state \<Rightarrow> tacho_state option" where
  "fan_tacho_read_callback gpio st =
     (let pin = unat (gpio AND 0x1f) in
      if pin < length (gpio_fan_tacho_map st) then
        (let fan = unat (gpio_fan_tacho_map st ! pin) in
         if fan > 0 then
           (if fan - 1 < length (fan_tacho_counters st) then
              Some (st\<lparr>fan_tacho_counters :=
                         (fan_tacho_counters st)[fan - 1 := fan_tacho_counters st ! (fan - 1) + 1]\<rparr>)
            else None)
         else Some st)
      else None)"

text \<open>A burst of \<open>n\<close> edges on one pin: the handler run \<open>n\<close> times in a row.\<close>

fun fan_tacho_edges :: "nat \<Rightarrow> uint \<Rightarrow> tacho_state \<Rightarrow> tacho_state option" where
  "fan_tacho_edges 0 gpio st = Some st"
| "fan_tacho_edges (Suc n) gpio st =
     (case fan_tacho_read_callback gpio st of
        None \<Rightarrow> None
      | Some st' \<Rightarrow> fan_tacho_edges n gpio st')"

subsection \<open>The frequency sampler\<close>

text \<open>The sampler's \<^verbatim>\<open>pulses = counters[i] - fan_tacho_counters_last[i]\<close>, on \<^verbatim>\<open>uint\<close>.\<close>

definition tacho_pulses :: "uint \<Rightarrow> uint \<Rightarrow> uint" where
  "tacho_pulses current baseline = current - baseline"

text \<open>
  \<^verbatim>\<open>update_tacho_input_freq()\<close>, with the time it reads as argument. Its three
  passes over \<^verbatim>\<open>i < FAN_MAX_COUNT\<close> are a \<open>map\<close> (the snapshot into the local array
  \<^verbatim>\<open>counters\<close>) and two \<open>fold\<close>s of an indexed store.
\<close>

definition update_tacho_input_freq :: "absolute_time_t \<Rightarrow> tacho_state \<Rightarrow> tacho_state" where
  "update_tacho_input_freq read_time st =
     (let counters = map (\<lambda>i. fan_tacho_counters st ! i) [0..<FAN_MAX_COUNT];
          delta = absolute_time_diff_us (fan_tacho_last_read st) read_time
      in if delta < 1000000 then st
         else
           (let s = real_of_int delta / 1000000;
                freq = fold (\<lambda>i fr. fr[i := real (unat (tacho_pulses (counters ! i)
                                  (fan_tacho_counters_last st ! i))) / s])
                            [0..<FAN_MAX_COUNT] (fan_tacho_freq st);
                lasts = fold (\<lambda>i ls. ls[i := counters ! i])
                            [0..<FAN_MAX_COUNT] (fan_tacho_counters_last st)
            in st\<lparr>fan_tacho_freq := freq,
                  fan_tacho_counters_last := lasts,
                  fan_tacho_last_read := read_time\<rparr>))"

text \<open>A concrete state: fan 1 on pin 2, fan 3 on pin 5, the other pins unmapped.\<close>

definition tacho_example :: tacho_state where
  "tacho_example =
     \<lparr>gpio_fan_tacho_map = [0, 0, 1, 0, 0, 3, 0, 0, 0, 0, 0, 0, 0, 0, 0, 0,
                            0, 0, 0, 0, 0, 0, 0, 0, 0, 0, 0, 0, 0, 0, 0, 0],
      fan_tacho_counters = [4294967295, 0, 7, 0, 0, 0, 0, 0],
      fan_tacho_counters_last = [4294967290, 0, 3, 0, 0, 0, 0, 0],
      fan_tacho_last_read = 500,
      fan_tacho_freq = [0, 0, 0, 0, 0, 0, 0, 0]\<rparr>"

text \<open>
  The state that \<^verbatim>\<open>setup_tacho_inputs\<close> builds at time 500 for eight fans on the pins
  2 to 9.
\<close>

definition setup_pins_example :: "uint8_t list" where
  "setup_pins_example = [2, 3, 4, 5, 6, 7, 8, 9]"

definition setup_example :: tacho_state where
  "setup_example =
     \<lparr>gpio_fan_tacho_map = [0, 0, 1, 2, 3, 4, 5, 6, 7, 8, 0, 0, 0, 0, 0, 0,
                            0, 0, 0, 0, 0, 0, 0, 0, 0, 0, 0, 0, 0, 0, 0, 0],
      fan_tacho_counters = [0, 0, 0, 0, 0, 0, 0, 0],
      fan_tacho_counters_last = [0, 0, 0, 0, 0, 0, 0, 0],
      fan_tacho_last_read = 500,
      fan_tacho_freq = [0, 0, 0, 0, 0, 0, 0, 0]\<rparr>"

section \<open>Signal filters (filters.c)\<close>

subsection \<open>Environment of the filter code\<close>

text \<open>
  The ways a call can leave defined behaviour: an index outside the filter table, a
  use of a null context pointer, and the conversion to \<^verbatim>\<open>int64_t\<close> of a
  floating-point value whose integer part does not fit.
\<close>

datatype fault = OutOfBounds | NullPointer | ConversionRange

text \<open>
  A context pointer \<^verbatim>\<open>void *ctx\<close> is \<open>None\<close> when null and otherwise holds the
  context it points to; \<open>deref\<close> is the access \<^verbatim>\<open>c->...\<close> through it.
\<close>

definition deref :: "'c option \<Rightarrow> ('c \<Rightarrow> 'r) \<Rightarrow> fault + 'r" where
  "deref p f = (case p of None \<Rightarrow> Inl NullPointer | Some c \<Rightarrow> Inr (f c))"

text \<open>
  The allocator: \<open>heap_used\<close> counts the live blocks, \<open>heap_avail\<close> how many more
  requests can be served. \<^verbatim>\<open>malloc\<close> fails (returns null) when nothing is left.
\<close>

record heap =
  heap_used :: nat
  heap_avail :: nat

definition malloc :: "heap \<Rightarrow> heap option" where
  "malloc h = (if heap_avail h = 0 then None
               else Some (h\<lparr>heap_used := heap_used h + 1, heap_avail := heap_avail h - 1\<rparr>))"

definition strdup :: "string \<Rightarrow> heap \<Rightarrow> string option \<times> heap" where
  "strdup s h = (case malloc h of None \<Rightarrow> (None, h) | Some h' \<Rightarrow> (Some s, h'))"

text \<open>
  \<^verbatim>\<open>strtok_r(s, delim, &saveptr)\<close> on the text still to be read: leading delimiters are
  skipped; at the end of the text there is no token; otherwise the token runs up to
  the next delimiter and reading resumes after that delimiter. The result is the
  token and the text left for the next call. (The C function marks the end of the
  token by overwriting that delimiter in the caller's buffer; the buffer is the
  caller's and is not part of the state modelled here.)
\<close>

definition strtok_r :: "string \<Rightarrow> string \<Rightarrow> (string \<times> string) option" where
  "strtok_r s delim =
     (let s1 = dropWhile (\<lambda>c. c \<in> set delim) s in
      if s1 = [] then None
      else Some (takeWhile (\<lambda>c. c \<notin> set delim) s1,
                 drop 1 (dropWhile (\<lambda>c. c \<notin> set delim) s1)))"

text \<open>
  Rounding to a binary floating-point format with \<open>p\<close> bits of precision and least
  normal exponent \<open>emin\<close>, to the nearest value, a tie to the even one:
  \<open>flog2 x\<close> is the exponent \<open>e\<close> with \<open>2\<^sup>e \<le> x < 2\<^sup>e\<^sup>+\<^sup>1\<close>, and the value is rounded
  to a multiple of \<open>2\<^sup>e\<^sup>-\<^sup>p\<^sup>+\<^sup>1\<close> (of \<open>2\<^bsup>emin-p+1\<^esup>\<close> below the normal range).
  \<^verbatim>\<open>float\<close> is binary32 and \<^verbatim>\<open>double\<close> is binary64. The largest exponent is not
  modelled: a result beyond the range of the format, an infinity in C, is a finite
  number here.
\<close>

definition round_half_even :: "real \<Rightarrow> int" where
  "round_half_even x =
     (let f = \<lfloor>x\<rfloor>; d = x - of_int f in
      if d < 1 / 2 then f
      else if 1 / 2 < d then f + 1
      else if even f then f else f + 1)"

definition pow2 :: "int \<Rightarrow> real" where
  "pow2 e = (if 0 \<le> e then 2 ^ nat e else 1 / 2 ^ nat (- e))"

fun nat_log2 :: "nat \<Rightarrow> nat" where
  "nat_log2 n = (if n < 2 then 0 else Suc (nat_log2 (n div 2)))"

declare nat_log2.simps [simp del]

definition flog2 :: "real \<Rightarrow> int" where
  "flog2 x = (if 1 \<le> x then int (nat_log2 (nat \<lfloor>x\<rfloor>))
              else - int (Suc (nat_log2 (nat \<lceil>1 / x\<rceil> - 1))))"

definition fp_rnd :: "nat \<Rightarrow> int \<Rightarrow> real \<Rightarrow> real" where
  "fp_rnd p emin x =
     (if x = 0 then 0
      else
        (let e = max (flog2 \<bar>x\<bar>) emin;
             q = pow2 (e - int p + 1)
         in (if x < 0 then - 1 else 1) * real_of_int (round_half_even (\<bar>x\<bar> / q)) * q))"

definition float_rnd :: "real \<Rightarrow> real" where
  "float_rnd = fp_rnd 24 (- 126)"

definition double_rnd :: "real \<Rightarrow> real" where
  "double_rnd = fp_rnd 53 (- 1022)"

text \<open>
  The conversion of a \<^verbatim>\<open>float\<close> to \<^verbatim>\<open>int64_t\<close> discards the fraction; it is
  undefined (\<open>None\<close>) when the integer part is not a value of \<^verbatim>\<open>int64_t\<close>.
\<close>

definition float_to_int64 :: "real \<Rightarrow> int option" where
  "float_to_int64 x =
     (let v = (if x < 0 then \<lceil>x\<rceil> else \<lfloor>x\<rfloor>) in
      if - (2 ^ 63) \<le> v \<and> v < 2 ^ 63 then Some v else None)"

text \<open>
  \<^verbatim>\<open>tolower\<close> and \<^verbatim>\<open>strcasecmp\<close> of the C library, in the C locale. The result of
  \<^verbatim>\<open>strcasecmp\<close> is negative, zero or positive; the model returns -1, 0 or 1.
\<close>

definition tolower :: "char \<Rightarrow> char" where
  "tolower c = (let n = (of_char c :: nat) in
                if 65 \<le> n \<and> n \<le> 90 then char_of (n + 32) else c)"

fun strcasecmp :: "string \<Rightarrow> string \<Rightarrow> int" where
  "strcasecmp [] [] = 0"
| "strcasecmp [] (b # bs) = - 1"
| "strcasecmp (a # as) [] = 1"
| "strcasecmp (a # as) (b # bs) =
     (if tolower a = tolower b then strcasecmp as bs
      else if (of_char (tolower a) :: nat) < of_char (tolower b) then - 1 else 1)"

subsection \<open>Formatting with \<^verbatim>\<open>%f\<close>\<close>

text \<open>
  \<^verbatim>\<open>snprintf(buf, n, "%f", x)\<close> writes the sign, the integer part in decimal, a point
  and six decimals, the value rounded to the nearest multiple of \<open>10\<^sup>-\<^sup>6\<close> (a tie to
  the even one).
\<close>

definition digit_char :: "nat \<Rightarrow> char" where
  "digit_char d = ''0123456789'' ! (d mod 10)"

fun dec_digits :: "nat \<Rightarrow> string" where
  "dec_digits n = (if n < 10 then [digit_char n]
                   else dec_digits (n div 10) @ [digit_char (n mod 10)])"

declare dec_digits.simps [simp del]

text \<open>The last \<open>k\<close> decimal digits of \<open>m\<close>, with leading zeros.\<close>

fun pad_digits :: "nat \<Rightarrow> nat \<Rightarrow> string" where
  "pad_digits 0 m = []"
| "pad_digits (Suc k) m = pad_digits k (m div 10) @ [digit_char (m mod 10)]"

definition frac_digits :: "nat \<Rightarrow> string" where
  "frac_digits m = pad_digits 6 m"

definition printf_f :: "real \<Rightarrow> string" where
  "printf_f x =
     (let m = nat (round_half_even (\<bar>x\<bar> * 1000000)) in
      (if x < 0 then ''-'' else []) @
      dec_digits (m div 1000000) @ ''.'' @ frac_digits (m mod 1000000))"

subsection \<open>Reading a number\<close>

text \<open>
  Modelled from the spec: \<^verbatim>\<open>str_to_float\<close> is defined elsewhere in the repository and
  is not among the sources at hand. The functions below take it as a parameter
  \<open>str_to_float :: string \<Rightarrow> real option\<close> (\<open>None\<close> when the text does not parse);
  it stores its result in a \<^verbatim>\<open>float\<close>, so the numbers it returns are binary32
  values. The spec describes the fields as ASCII decimal numbers:
  \<open>read_decimal\<close> reads an optional minus sign, digits, and optionally a point and
  more digits, and \<open>str_to_float_decimal\<close>, the reader used at concrete inputs,
  returns the binary32 value nearest to the number read.
\<close>

definition is_digit :: "char \<Rightarrow> bool" where
  "is_digit c \<longleftrightarrow> c \<in> set ''0123456789''"

definition digit_value :: "char \<Rightarrow> nat" where
  "digit_value c = of_char c - 48"

definition read_nat :: "string \<Rightarrow> nat" where
  "read_nat ds = foldl (\<lambda>a c. 10 * a + digit_value c) 0 ds"

definition read_unsigned :: "string \<Rightarrow> real option" where
  "read_unsigned s =
     (let ip = takeWhile is_digit s; rest = dropWhile is_digit s in
      if ip = [] then None
      else (case rest of
              [] \<Rightarrow> Some (real (read_nat ip))
            | c # fp \<Rightarrow>
                if c = CHR ''.'' \<and> list_all is_digit fp
                then Some (real (read_nat ip) + real (read_nat fp) / 10 ^ length fp)
                else None))"

definition read_decimal :: "string \<Rightarrow> real option" where
  "read_decimal s =
     (case s of
        [] \<Rightarrow> None
      | c # r \<Rightarrow> if c = CHR ''-'' then map_option uminus (read_unsigned r)
                 else read_unsigned s)"

definition str_to_float_decimal :: "string \<Rightarrow> real option" where
  "str_to_float_decimal s = map_option float_rnd (read_decimal s)"

subsection \<open>The lossy peak filter\<close>

record lossypeak_context =
  peak :: real
  delay_us :: int
  decay :: real
  last_t :: absolute_time_t
  peak_t :: absolute_time_t
  state :: uint8_t

text \<open>
  \<^verbatim>\<open>lossy_peak_parse_args(args)\<close>: \<open>args = None\<close> is the null pointer. The result is
  the new context (\<open>None\<close> for null) and the heap after the call. The hold delay is
  \<^verbatim>\<open>delay * 1000000\<close>, a product of \<^verbatim>\<open>float\<close>s, converted to \<^verbatim>\<open>int64_t\<close>; the
  call has no defined result when that conversion has none.
\<close>

definition lossy_peak_parse_args ::
  "(string \<Rightarrow> real option) \<Rightarrow> absolute_time_t \<Rightarrow> heap \<Rightarrow> string option
     \<Rightarrow> fault + (lossypeak_context option \<times> heap)" where
  "lossy_peak_parse_args str_to_float t_now h args =
     (case args of
        None \<Rightarrow> Inr (None, h)
      | Some a \<Rightarrow>
         (case strtok_r a '','' of
            None \<Rightarrow> Inr (None, h)
          | Some (tok, saveptr) \<Rightarrow>
             (case str_to_float tok of
                None \<Rightarrow> Inr (None, h)
              | Some decay_arg \<Rightarrow>
                 (case strtok_r saveptr '','' of
                    None \<Rightarrow> Inr (None, h)
                  | Some (tok2, saveptr2) \<Rightarrow>
                     (case str_to_float tok2 of
                        None \<Rightarrow> Inr (None, h)
                      | Some delay_arg \<Rightarrow>
                         (case malloc h of
                            None \<Rightarrow> Inr (None, h)
                          | Some h' \<Rightarrow>
                             (case float_to_int64 (float_rnd (delay_arg * 1000000)) of
                                None \<Rightarrow> Inl ConversionRange
                              | Some us \<Rightarrow>
                                 Inr (Some \<lparr>peak = 0,
                                            delay_us = us,
                                            decay = decay_arg,
                                            last_t = t_now,
                                            peak_t = 0,
                                            state = 0\<rparr>, h'))))))))"

text \<open>
  \<^verbatim>\<open>lossy_peak_print_args(ctx)\<close> on the context pointed to. The second field is
  \<^verbatim>\<open>(float)(c->delay_us / 1000000.0)\<close>: the delay converted to \<^verbatim>\<open>double\<close>, divided in
  \<^verbatim>\<open>double\<close> and converted to \<^verbatim>\<open>float\<close>. \<^verbatim>\<open>snprintf\<close> into a buffer of 128 bytes
  keeps at most 127 characters; \<^verbatim>\<open>strdup\<close> copies them to the heap.
\<close>

definition lossy_peak_print_args :: "lossypeak_context \<Rightarrow> heap \<Rightarrow> string option \<times> heap" where
  "lossy_peak_print_args c h =
     strdup (take 127 (printf_f (decay c) @ '','' @
                       printf_f (float_rnd (double_rnd
                          (double_rnd (real_of_int (delay_us c)) / 1000000))))) h"

text \<open>
  The block \<^verbatim>\<open>if (c->state == 0) { ... }\<close> of \<^verbatim>\<open>lossy_peak_filter\<close>, reached when the
  input is below the peak: it yields the phase and the time span \<^verbatim>\<open>t_d\<close> (in
  microseconds) that the decay step after it uses.
\<close>

definition lossy_peak_hold :: "lossypeak_context \<Rightarrow> absolute_time_t \<Rightarrow> uint8_t \<times> int" where
  "lossy_peak_hold c t_now =
     (let t_d = absolute_time_diff_us (last_t c) t_now in
      if state c = 0 then
        (if delay_us c > 0 then
           (let t_d' = absolute_time_diff_us (peak_t c) t_now in
            if t_d' > delay_us c then (1, t_d' - delay_us c) else (0, t_d'))
         else (1, t_d))
      else (state c, t_d))"

text \<open>
  \<^verbatim>\<open>lossy_peak_filter(ctx, input)\<close> on the context pointed to, with the time read at
  entry: the context after the call and the value returned.
\<close>

definition lossy_peak_filter ::
  "lossypeak_context \<Rightarrow> absolute_time_t \<Rightarrow> real \<Rightarrow> lossypeak_context \<times> real" where
  "lossy_peak_filter c t_now input =
     (let c1 =
        (if input \<ge> peak c then c\<lparr>peak := input, state := 0, peak_t := t_now\<rparr>
         else
           (let (s, t_d) = lossy_peak_hold c t_now;
                c' = c\<lparr>state := s\<rparr>
            in if s = 1 then
                 (let d = (real_of_int t_d / 1000000) * decay c' in
                  if input > peak c' - d then c'\<lparr>peak := input\<rparr>
                  else c'\<lparr>peak := peak c' - d\<rparr>)
               else c'));
          c2 = c1\<lparr>last_t := t_now\<rparr>
      in (c2, peak c2))"

text \<open>A run of calls, each with the time it reads and its input; the values returned.\<close>

fun lossy_peak_run ::
  "lossypeak_context \<Rightarrow> (absolute_time_t \<times> real) list \<Rightarrow> real list" where
  "lossy_peak_run c [] = []"
| "lossy_peak_run c ((t_now, input) # calls) =
     snd (lossy_peak_filter c t_now input) #
     lossy_peak_run (fst (lossy_peak_filter c t_now input)) calls"

subsection \<open>The filter table and its dispatch\<close>

text \<open>
  \<^verbatim>\<open>enum pwm_filter_types\<close> is declared in fanpico.h (not at hand); the comments of the
  table give \<^verbatim>\<open>FILTER_NONE\<close> and \<^verbatim>\<open>FILTER_LOSSYPEAK\<close> as the indices 0 and 1. A selector
  is an \<^verbatim>\<open>int\<close>.
\<close>

definition FILTER_NONE :: int where
  "FILTER_NONE = 0"

definition FILTER_LOSSYPEAK :: int where
  "FILTER_LOSSYPEAK = 1"

record filter_entry =
  name :: "string option"
  parse_args_func ::
    "((string \<Rightarrow> real option) \<Rightarrow> absolute_time_t \<Rightarrow> heap \<Rightarrow> string option
        \<Rightarrow> fault + (lossypeak_context option \<times> heap)) option"
  print_args_func ::
    "(lossypeak_context option \<Rightarrow> heap \<Rightarrow> fault + (string option \<times> heap)) option"
  filter_func ::
    "(lossypeak_context option \<Rightarrow> absolute_time_t \<Rightarrow> real
        \<Rightarrow> fault + (lossypeak_context option \<times> real)) option"

definition filters :: "filter_entry list" where
  "filters =
     [\<lparr>name = Some ''none'', parse_args_func = None, print_args_func = None,
       filter_func = None\<rparr>,
      \<lparr>name = Some ''lossypeak'',
       parse_args_func = Some lossy_peak_parse_args,
       print_args_func = Some (\<lambda>ctx h. deref ctx (\<lambda>c. lossy_peak_print_args c h)),
       filter_func = Some (\<lambda>ctx t_now input.
          deref ctx (\<lambda>c. (Some (fst (lossy_peak_filter c t_now input)),
                           snd (lossy_peak_filter c t_now input))))\<rparr>,
      \<lparr>name = None, parse_args_func = None, print_args_func = None,
       filter_func = None\<rparr>]"

text \<open>
  The loop \<^verbatim>\<open>for (i = 0; filters[i].name; i++)\<close> of \<^verbatim>\<open>str2pwm_filter\<close>, from index
  \<open>i\<close> over the rest of the table. The table ends with an entry without a name, so
  the case of the empty rest is never reached from \<open>filters\<close>.
\<close>

fun str2pwm_filter_loop :: "string \<Rightarrow> int \<Rightarrow> filter_entry list \<Rightarrow> int" where
  "str2pwm_filter_loop s i [] = FILTER_NONE"
| "str2pwm_filter_loop s i (e # es) =
     (case name e of
        None \<Rightarrow> FILTER_NONE
      | Some n \<Rightarrow> if strcasecmp s n = 0 then i else str2pwm_filter_loop s (i + 1) es)"

definition str2pwm_filter :: "string \<Rightarrow> int" where
  "str2pwm_filter s = str2pwm_filter_loop s 0 filters"

fun pwm_filter2str_loop :: "int \<Rightarrow> int \<Rightarrow> filter_entry list \<Rightarrow> string" where
  "pwm_filter2str_loop source i [] = ''none''"
| "pwm_filter2str_loop source i (e # es) =
     (case name e of
        None \<Rightarrow> ''none''
      | Some n \<Rightarrow> if source = i then n else pwm_filter2str_loop source (i + 1) es)"

definition pwm_filter2str :: "int \<Rightarrow> string" where
  "pwm_filter2str source = pwm_filter2str_loop source 0 filters"

text \<open>The unchecked access \<^verbatim>\<open>filters[filter]\<close> of the three dispatch functions.\<close>

definition filters_at :: "int \<Rightarrow> fault + filter_entry" where
  "filters_at f = (if 0 \<le> f \<and> f < int (length filters) then Inr (filters ! nat f)
                   else Inl OutOfBounds)"

definition filter_parse_args ::
  "(string \<Rightarrow> real option) \<Rightarrow> absolute_time_t \<Rightarrow> heap \<Rightarrow> int \<Rightarrow> string option
     \<Rightarrow> fault + (lossypeak_context option \<times> heap)" where
  "filter_parse_args str_to_float t_now h f args =
     (case filters_at f of
        Inl e \<Rightarrow> Inl e
      | Inr e \<Rightarrow>
         (case parse_args_func e of
            None \<Rightarrow> Inr (None, h)
          | Some p \<Rightarrow> p str_to_float t_now h args))"

definition filter_print_args ::
  "int \<Rightarrow> lossypeak_context option \<Rightarrow> heap \<Rightarrow> fault + (string option \<times> heap)" where
  "filter_print_args f ctx h =
     (case filters_at f of
        Inl e \<Rightarrow> Inl e
      | Inr e \<Rightarrow>
         (case print_args_func e of
            None \<Rightarrow> Inr (None, h)
          | Some p \<Rightarrow> p ctx h))"

definition filter ::
  "int \<Rightarrow> lossypeak_context option \<Rightarrow> absolute_time_t \<Rightarrow> real
     \<Rightarrow> fault + (lossypeak_context option \<times> real)" where
  "filter f ctx t_now input =
     (case filters_at f of
        Inl e \<Rightarrow> Inl e
      | Inr e \<Rightarrow>
         (case filter_func e of
            None \<Rightarrow> Inr (ctx, input)
          | Some g \<Rightarrow> g ctx t_now input))"

subsection \<open>Concrete contexts\<close>

text \<open>
  A context with no hold delay, tracking a peak of 10; a context with decay rate 0
  that has been decaying from a peak of 10; and the context of the spec's worked
  example (decay 2 per second, hold delay 0.5 s) after a peak of 10 at time 0.
\<close>

definition hold0_example :: lossypeak_context where
  "hold0_example =
     \<lparr>peak = 10, delay_us = 0, decay = 2, last_t = 0, peak_t = 0, state = 0\<rparr>"

definition held_example :: lossypeak_context where
  "held_example =
     \<lparr>peak = 10, delay_us = 500000, decay = 0, last_t = 0, peak_t = 0, state = 1\<rparr>"

definition tracking_example :: lossypeak_context where
  "tracking_example =
     \<lparr>peak = 10, delay_us = 500000, decay = 2, last_t = 0, peak_t = 0, state = 0\<rparr>"

text \<open>
  The number that the text \<open>printf_f x\<close> denotes: \<open>x\<close> rounded to six decimals.
\<close>

definition printf_f_value :: "real \<Rightarrow> real" where
  "printf_f_value x =
     (if x < 0 then - 1 else 1) * real (nat (round_half_even (\<bar>x\<bar> * 1000000))) / 1000000"

text \<open>
  The contexts that the parser builds at time 0 from the texts \<^verbatim>\<open>2.0,0.5\<close>,
  \<^verbatim>\<open>0.0000001,1\<close> (the binary32 value nearest to \<open>10\<^sup>-\<^sup>7\<close> is \<open>14073749 / 2\<^sup>4\<^sup>7\<close>) and
  \<^verbatim>\<open>2,0.129\<close>, and a heap with two blocks in use and room for five more.
\<close>

definition parsed_example :: lossypeak_context where
  "parsed_example =
     \<lparr>peak = 0, delay_us = 500000, decay = 2, last_t = 0, peak_t = 0, state = 0\<rparr>"

definition slow_decay_example :: lossypeak_context where
  "slow_decay_example =
     \<lparr>peak = 0, delay_us = 1000000, decay = 14073749 / 140737488355328, last_t = 0,
      peak_t = 0, state = 0\<rparr>"

definition short_hold_example :: lossypeak_context where
  "short_hold_example =
     \<lparr>peak = 0, delay_us = 128999, decay = 2, last_t = 0, peak_t = 0, state = 0\<rparr>"

definition heap_example :: heap where
  "heap_example = \<lparr>heap_used = 2, heap_avail = 5\<rparr>"

section \<open>Facts about the tachometer model\<close>

lemma fold_store_length:
  "length (fold (\<lambda>i xs. xs[i := f i]) js xs) = length xs"
  by (induction js arbitrary: xs) simp_all

lemma fold_store_nth:
  "n \<le> length xs \<Longrightarrow>
   fold (\<lambda>i xs. xs[i := f i]) [0..<n] xs ! k = (if k < n then f k else xs ! k)"
proof (induction n arbitrary: k)
  case 0
  then show ?case by simp
next
  case (Suc n)
  have len: "length (fold (\<lambda>i xs. xs[i := f i]) [0..<n] xs) = length xs"
    by (rule fold_store_length)
  from Suc.prems have n: "n < length xs" by simp
  show ?case
  proof (cases "k = n")
    case True
    with n len show ?thesis by simp
  next
    case False
    with Suc.IH [of k] n show ?thesis by (simp add: less_Suc_eq)
  qed
qed

lemma pin_mask_bound: "unat ((gpio :: uint) AND 0x1f) < 32"
proof -
  have "gpio AND 0x1f \<le> 0x1f" by (rule word_and_le1)
  then have "unat (gpio AND 0x1f) \<le> unat (0x1f :: uint)" by (simp add: word_le_nat_alt)
  then show ?thesis by simp
qed

lemma fold_update_length:
  "length (fold (\<lambda>i m. m[f i := g i]) js m) = length m"
  by (induction js arbitrary: m) simp_all

lemma fold_update_all:
  "list_all P m \<Longrightarrow> \<forall>i \<in> set js. P (g i) \<Longrightarrow>
   list_all P (fold (\<lambda>i m. m[f i := g i]) js m)"
proof (induction js arbitrary: m)
  case Nil
  then show ?case by simp
next
  case (Cons j js)
  from Cons.prems have "list_all P (m[f j := g j])"
    by (auto simp: list_all_iff dest: set_update_subset_insert [THEN subsetD])
  with Cons.prems(2) show ?case by (simp add: Cons.IH)
qed

lemma setup_tacho_inputs_ok:
  assumes "setup_tacho_inputs pins t_now = Some st"
  shows "tacho_state_ok st"
proof -
  have "\<forall>i \<in> set [0..<FAN_MAX_COUNT]. unat (of_nat (1 + i) :: uint8_t) \<le> FAN_MAX_COUNT"
  proof
    fix i assume "i \<in> set [0..<FAN_MAX_COUNT]"
    then have i: "1 + i \<le> FAN_MAX_COUNT" by simp
    have "unat (of_nat (1 + i) :: uint8_t) \<le> 1 + i"
      unfolding unat_of_nat take_bit_eq_mod by (rule mod_less_eq_dividend)
    then show "unat (of_nat (1 + i) :: uint8_t) \<le> FAN_MAX_COUNT" using i by (rule order_trans)
  qed
  then have "list_all (\<lambda>e. unat e \<le> FAN_MAX_COUNT)
      (fold (\<lambda>i m. m[unat (pins ! i) := of_nat (1 + i)]) [0..<FAN_MAX_COUNT] (replicate 32 (0 :: uint8_t)))"
    by (intro fold_update_all) (simp_all add: list_all_iff)
  with assms show ?thesis
    by (auto simp: setup_tacho_inputs_def tacho_state_ok_def fold_update_length split: if_splits)
qed

lemma callback_ok:
  assumes "tacho_state_ok st" and "fan_tacho_read_callback gpio st = Some st'"
  shows "tacho_state_ok st'"
  using assms
  by (auto simp: fan_tacho_read_callback_def Let_def tacho_state_ok_def split: if_splits)

lemma update_ok:
  assumes "tacho_state_ok st"
  shows "tacho_state_ok (update_tacho_input_freq t st)"
  using assms
  by (simp add: update_tacho_input_freq_def Let_def tacho_state_ok_def fold_store_length)

lemma fold_update_other:
  "\<forall>i \<in> set js. f i \<noteq> k \<Longrightarrow> fold (\<lambda>i m. m[f i := g i]) js m ! k = m ! k"
  by (induction js arbitrary: m) simp_all

lemma setup_unmapped_pin:
  assumes "setup_tacho_inputs pins t_now = Some st"
    and "p < 32" and "p \<notin> unat ` set pins"
  shows "gpio_fan_tacho_map st ! p = 0"
proof -
  from assms(1) have len: "length pins = FAN_MAX_COUNT"
    and st: "gpio_fan_tacho_map st =
      fold (\<lambda>i m. m[unat (pins ! i) := of_nat (1 + i)]) [0..<FAN_MAX_COUNT] (replicate 32 0)"
    by (auto simp: setup_tacho_inputs_def split: if_splits)
  have "\<forall>i \<in> set [0..<FAN_MAX_COUNT]. unat (pins ! i) \<noteq> p"
    using assms(3) len by auto
  then have "gpio_fan_tacho_map st ! p = replicate 32 (0 :: uint8_t) ! p"
    unfolding st by (rule fold_update_other)
  with assms(2) show ?thesis by simp
qed

lemma tacho_example_ok: "tacho_state_ok tacho_example"
  by (simp add: tacho_state_ok_def tacho_example_def FAN_MAX_COUNT_def)

lemma map_entry_bound:
  assumes "tacho_state_ok st"
  shows "unat (gpio_fan_tacho_map st ! unat ((gpio :: uint) AND 0x1f)) \<le> FAN_MAX_COUNT"
proof -
  from assms have len: "length (gpio_fan_tacho_map st) = 32"
    and all: "list_all (\<lambda>e. unat e \<le> FAN_MAX_COUNT) (gpio_fan_tacho_map st)"
    by (simp_all add: tacho_state_ok_def)
  have "unat (gpio AND 0x1f) < length (gpio_fan_tacho_map st)"
    using pin_mask_bound [of gpio] len by simp
  with all show ?thesis by (simp add: list_all_length)
qed

lemma callback_mapped:
  assumes ok: "tacho_state_ok st"
    and fan: "0 < unat (gpio_fan_tacho_map st ! unat (gpio AND 0x1f))"
  shows "fan_tacho_read_callback gpio st =
     Some (st\<lparr>fan_tacho_counters := (fan_tacho_counters st)
        [unat (gpio_fan_tacho_map st ! unat (gpio AND 0x1f)) - 1 :=
           fan_tacho_counters st ! (unat (gpio_fan_tacho_map st ! unat (gpio AND 0x1f)) - 1) + 1]\<rparr>)"
proof -
  from ok have len: "length (gpio_fan_tacho_map st) = 32"
    and lc: "length (fan_tacho_counters st) = FAN_MAX_COUNT"
    by (simp_all add: tacho_state_ok_def)
  have pin: "unat (gpio AND 0x1f) < length (gpio_fan_tacho_map st)"
    using pin_mask_bound [of gpio] len by simp
  have "unat (gpio_fan_tacho_map st ! unat (gpio AND 0x1f)) - 1 < length (fan_tacho_counters st)"
    using map_entry_bound [OF ok, of gpio] fan lc by simp
  with pin fan show ?thesis
    by (simp add: fan_tacho_read_callback_def Let_def)
qed

lemma callback_unmapped:
  assumes ok: "tacho_state_ok st"
    and fan: "unat (gpio_fan_tacho_map st ! unat (gpio AND 0x1f)) = 0"
  shows "fan_tacho_read_callback gpio st = Some st"
proof -
  from ok have len: "length (gpio_fan_tacho_map st) = 32"
    by (simp add: tacho_state_ok_def)
  have pin: "unat (gpio AND 0x1f) < length (gpio_fan_tacho_map st)"
    using pin_mask_bound [of gpio] len by simp
  with fan show ?thesis
    by (simp add: fan_tacho_read_callback_def Let_def)
qed

lemma counters_update_ok:
  "tacho_state_ok st \<Longrightarrow>
   tacho_state_ok (st\<lparr>fan_tacho_counters := (fan_tacho_counters st)[k := v]\<rparr>)"
  by (simp add: tacho_state_ok_def)

lemma pulses_exact: "n < 2 ^ 32 \<Longrightarrow> unat (tacho_pulses (b + of_nat n) b) = n"
  by (simp add: tacho_pulses_def unat_of_nat take_bit_nat_eq_self)

lemma tacho_example_values:
  "fan_tacho_counters tacho_example ! 0 = 4294967295"
  "fan_tacho_counters tacho_example ! 2 = 7"
  "fan_tacho_counters_last tacho_example ! 0 = 4294967290"
  "fan_tacho_counters_last tacho_example ! 2 = 3"
  "gpio_fan_tacho_map tacho_example ! 2 = 1"
  "gpio_fan_tacho_map tacho_example ! 3 = 0"
  "fan_tacho_last_read tacho_example = 500"
  by (simp_all add: tacho_example_def)

lemma tacho_example_times:
  "absolute_time_diff_us 500 1000499 = 999999"
  "absolute_time_diff_us 500 100 = - 400"
  "absolute_time_diff_us 500 2000500 = 2000000"
  by (simp_all add: absolute_time_diff_us_def)

lemma pin_mask_id: "unat (gpio :: uint) < 32 \<Longrightarrow> gpio AND 0x1f = gpio"
proof -
  assume "unat gpio < 32"
  then have "gpio < 2 ^ 5" by (simp add: word_less_nat_alt)
  then have "gpio AND mask 5 = gpio" by (rule less_mask_eq)
  moreover have "(0x1f :: uint) = mask 5" by (simp add: mask_eq_exp_minus_1)
  ultimately show ?thesis by simp
qed

lemma callback_effect:
  assumes ok: "tacho_state_ok st"
  shows "\<exists>st'. fan_tacho_read_callback gpio st = Some st' \<and>
     fan_tacho_freq st' = fan_tacho_freq st \<and>
     fan_tacho_counters_last st' = fan_tacho_counters_last st \<and>
     fan_tacho_last_read st' = fan_tacho_last_read st \<and>
     gpio_fan_tacho_map st' = gpio_fan_tacho_map st \<and>
     (if gpio_fan_tacho_map st ! unat (gpio AND 0x1f) = 0
      then fan_tacho_counters st' = fan_tacho_counters st
      else unat (gpio_fan_tacho_map st ! unat (gpio AND 0x1f)) - 1 < FAN_MAX_COUNT \<and>
        (\<forall>i < FAN_MAX_COUNT. fan_tacho_counters st' ! i =
           (if i = unat (gpio_fan_tacho_map st ! unat (gpio AND 0x1f)) - 1
            then fan_tacho_counters st ! i + 1 else fan_tacho_counters st ! i)))"
proof (cases "gpio_fan_tacho_map st ! unat (gpio AND 0x1f) = 0")
  case True
  then have "unat (gpio_fan_tacho_map st ! unat (gpio AND 0x1f)) = 0" by simp
  from callback_unmapped [OF ok this] True show ?thesis by simp
next
  case False
  then have pos: "0 < unat (gpio_fan_tacho_map st ! unat (gpio AND 0x1f))"
    by (simp add: unat_gt_0)
  have k: "unat (gpio_fan_tacho_map st ! unat (gpio AND 0x1f)) - 1 < FAN_MAX_COUNT"
    using map_entry_bound [OF ok, of gpio] pos by simp
  from ok have lc: "length (fan_tacho_counters st) = FAN_MAX_COUNT"
    by (simp add: tacho_state_ok_def)
  from callback_mapped [OF ok pos] False k lc show ?thesis
    by (simp add: nth_list_update)
qed

text \<open>
  \<open>n\<close> edges on a mapped pin add \<open>n\<close> (modulo \<open>2 ^ 32\<close>) to that channel's counter
  and leave the baselines and the time of the last sample as they are; a sample
  that is not throttled stores the frequency, takes the counters as the new
  baselines and the read time as the time of the last sample.
\<close>

lemma upt8: "[0..<8] = [0, Suc 0, 2, 3, 4, 5, 6, 7]"
  by (simp add: upt_rec eval_nat_numeral)

lemma rep32: "replicate 32 (0 :: uint8_t) = [0, 0, 0, 0, 0, 0, 0, 0, 0, 0, 0, 0, 0, 0, 0, 0,
                            0, 0, 0, 0, 0, 0, 0, 0, 0, 0, 0, 0, 0, 0, 0, 0]"
  by (simp add: eval_nat_numeral)

lemma rep8: "replicate 8 (0 :: 'a :: zero) = [0, 0, 0, 0, 0, 0, 0, 0]"
  by (simp add: eval_nat_numeral)

lemma setup_example_eq: "setup_tacho_inputs setup_pins_example 500 = Some setup_example"
  by (simp add: setup_tacho_inputs_def setup_pins_example_def setup_example_def
      FAN_MAX_COUNT_def upt8 rep32 rep8)

lemma setup_example_ok: "tacho_state_ok setup_example"
  using setup_example_eq by (rule setup_tacho_inputs_ok)

lemma edges_effect:
  assumes "tacho_state_ok st"
    and "0 < unat (gpio_fan_tacho_map st ! unat (gpio AND 0x1f))"
  shows "\<exists>st'. fan_tacho_edges n gpio st = Some st' \<and>
      fan_tacho_counters st' ! (unat (gpio_fan_tacho_map st ! unat (gpio AND 0x1f)) - 1) =
        fan_tacho_counters st ! (unat (gpio_fan_tacho_map st ! unat (gpio AND 0x1f)) - 1) + of_nat n \<and>
      fan_tacho_counters_last st' = fan_tacho_counters_last st \<and>
      fan_tacho_last_read st' = fan_tacho_last_read st \<and>
      tacho_state_ok st'"
  using assms
proof (induction n arbitrary: st)
  case 0
  then show ?case by simp
next
  case (Suc n)
  let ?k = "unat (gpio_fan_tacho_map st ! unat (gpio AND 0x1f)) - 1"
  let ?st1 = "st\<lparr>fan_tacho_counters :=
                 (fan_tacho_counters st)[?k := fan_tacho_counters st ! ?k + 1]\<rparr>"
  have step: "fan_tacho_read_callback gpio st = Some ?st1"
    using Suc.prems by (rule callback_mapped)
  have ok1: "tacho_state_ok ?st1"
    using Suc.prems(1) by (rule counters_update_ok)
  have k: "?k < length (fan_tacho_counters st)"
    using map_entry_bound [OF Suc.prems(1), of gpio] Suc.prems
    by (simp add: tacho_state_ok_def)
  from Suc.IH [OF ok1] Suc.prems(2) obtain st' where
    run: "fan_tacho_edges n gpio ?st1 = Some st'"
    and cnt: "fan_tacho_counters st' ! ?k = fan_tacho_counters ?st1 ! ?k + of_nat n"
    and rest: "fan_tacho_counters_last st' = fan_tacho_counters_last ?st1"
      "fan_tacho_last_read st' = fan_tacho_last_read ?st1" "tacho_state_ok st'"
    by auto
  from k have "fan_tacho_counters ?st1 ! ?k = fan_tacho_counters st ! ?k + 1"
    by simp
  with cnt have "fan_tacho_counters st' ! ?k = fan_tacho_counters st ! ?k + of_nat (Suc n)"
    by simp
  with step run rest show ?case by simp
qed

lemma update_accepted:
  assumes ok: "tacho_state_ok st"
    and late: "\<not> absolute_time_diff_us (fan_tacho_last_read st) t < 1000000"
    and i: "i < FAN_MAX_COUNT"
  shows "fan_tacho_freq (update_tacho_input_freq t st) ! i =
           real (unat (tacho_pulses (fan_tacho_counters st ! i)
                                    (fan_tacho_counters_last st ! i))) /
             (real_of_int (absolute_time_diff_us (fan_tacho_last_read st) t) / 1000000)"
    and "fan_tacho_counters_last (update_tacho_input_freq t st) ! i = fan_tacho_counters st ! i"
    and "fan_tacho_last_read (update_tacho_input_freq t st) = t"
    and "fan_tacho_counters (update_tacho_input_freq t st) = fan_tacho_counters st"
    and "gpio_fan_tacho_map (update_tacho_input_freq t st) = gpio_fan_tacho_map st"
proof -
  from ok have lf: "FAN_MAX_COUNT \<le> length (fan_tacho_freq st)"
    and ll: "FAN_MAX_COUNT \<le> length (fan_tacho_counters_last st)"
    by (simp_all add: tacho_state_ok_def)
  from late i show "fan_tacho_freq (update_tacho_input_freq t st) ! i =
           real (unat (tacho_pulses (fan_tacho_counters st ! i)
                                    (fan_tacho_counters_last st ! i))) /
             (real_of_int (absolute_time_diff_us (fan_tacho_last_read st) t) / 1000000)"
    and "fan_tacho_counters_last (update_tacho_input_freq t st) ! i = fan_tacho_counters st ! i"
    and "fan_tacho_last_read (update_tacho_input_freq t st) = t"
    and "fan_tacho_counters (update_tacho_input_freq t st) = fan_tacho_counters st"
    and "gpio_fan_tacho_map (update_tacho_input_freq t st) = gpio_fan_tacho_map st"
    by (simp_all add: update_tacho_input_freq_def Let_def
        fold_store_nth [OF lf] fold_store_nth [OF ll])
qed

lemma tacho_example_times2: "absolute_time_diff_us 2000500 5000500 = 3000000"
  by (simp add: absolute_time_diff_us_def)

section \<open>The frequency sampler: throttle and update (C1)\<close>

text \<open>
  Claim C1. For every call of the frequency sampler \<^verbatim>\<open>update_tacho_input_freq\<close>: if
  the elapsed time since the last accepted sample is below one second (1000000
  microseconds; zero and negative elapsed times included), the call returns the
  state as it was: frequencies, baselines and the accepted-sample timestamp are
  unchanged. Otherwise, for every channel, the new frequency is the number of
  pulses in the window divided by the elapsed seconds, every baseline count is set to
  the counter value of the snapshot, and the accepted-sample timestamp becomes the
  time of the snapshot. The pulse counters and the pin map are never written.
\<close>

theorem update_tacho_input_freq_sample:
  assumes ok: "tacho_state_ok st"
  shows "(absolute_time_diff_us (fan_tacho_last_read st) t < 1000000 \<longrightarrow>
            update_tacho_input_freq t st = st) \<and>
         (\<not> absolute_time_diff_us (fan_tacho_last_read st) t < 1000000 \<longrightarrow>
            (\<forall>i < FAN_MAX_COUNT.
               fan_tacho_freq (update_tacho_input_freq t st) ! i =
                 real (unat (tacho_pulses (fan_tacho_counters st ! i)
                                          (fan_tacho_counters_last st ! i))) /
                   (real_of_int (absolute_time_diff_us (fan_tacho_last_read st) t) / 1000000) \<and>
               fan_tacho_counters_last (update_tacho_input_freq t st) ! i =
                 fan_tacho_counters st ! i) \<and>
            fan_tacho_last_read (update_tacho_input_freq t st) = t \<and>
            fan_tacho_counters (update_tacho_input_freq t st) = fan_tacho_counters st \<and>
            gpio_fan_tacho_map (update_tacho_input_freq t st) = gpio_fan_tacho_map st)"
proof -
  from ok have lf: "FAN_MAX_COUNT \<le> length (fan_tacho_freq st)"
    and ll: "FAN_MAX_COUNT \<le> length (fan_tacho_counters_last st)"
    by (simp_all add: tacho_state_ok_def)
  show ?thesis
    by (simp add: update_tacho_input_freq_def Let_def
        fold_store_nth [OF lf] fold_store_nth [OF ll])
qed

theorem update_tacho_input_freq_sample_witness:
  "tacho_state_ok tacho_example \<and>
   absolute_time_diff_us (fan_tacho_last_read tacho_example) 1000499 = 999999 \<and>
   update_tacho_input_freq 1000499 tacho_example = tacho_example \<and>
   absolute_time_diff_us (fan_tacho_last_read tacho_example) 100 = - 400 \<and>
   update_tacho_input_freq 100 tacho_example = tacho_example \<and>
   absolute_time_diff_us (fan_tacho_last_read tacho_example) 2000500 = 2000000 \<and>
   fan_tacho_freq (update_tacho_input_freq 2000500 tacho_example) ! 0 = 5 / 2 \<and>
   fan_tacho_freq (update_tacho_input_freq 2000500 tacho_example) ! 2 = 2 \<and>
   fan_tacho_counters_last (update_tacho_input_freq 2000500 tacho_example) ! 0 = 4294967295 \<and>
   fan_tacho_last_read (update_tacho_input_freq 2000500 tacho_example) = 2000500"
proof -
  note c = update_tacho_input_freq_sample [OF tacho_example_ok]
  note v = tacho_example_values tacho_example_times
  have f: "0 < FAN_MAX_COUNT" "2 < FAN_MAX_COUNT" by (simp_all add: FAN_MAX_COUNT_def)
  from c [of 1000499] have a: "update_tacho_input_freq 1000499 tacho_example = tacho_example"
    by (simp add: v)
  from c [of 100] have b: "update_tacho_input_freq 100 tacho_example = tacho_example"
    by (simp add: v)
  have late: "\<not> absolute_time_diff_us (fan_tacho_last_read tacho_example) 2000500 < 1000000"
    by (simp add: v)
  note u = c [of 2000500, THEN conjunct2, THEN mp, OF late]
  note u0 = u [THEN conjunct1, THEN spec, of 0, THEN mp, OF f(1)]
  note u2 = u [THEN conjunct1, THEN spec, of 2, THEN mp, OF f(2)]
  from u0 u2 u have d:
    "fan_tacho_freq (update_tacho_input_freq 2000500 tacho_example) ! 0 = 5 / 2"
    "fan_tacho_freq (update_tacho_input_freq 2000500 tacho_example) ! 2 = 2"
    "fan_tacho_counters_last (update_tacho_input_freq 2000500 tacho_example) ! 0 = 4294967295"
    "fan_tacho_last_read (update_tacho_input_freq 2000500 tacho_example) = 2000500"
    by (simp_all add: v tacho_pulses_def)
  from a b d show ?thesis by (simp add: tacho_example_ok v)
qed

section \<open>Wrap-around of the pulse counters (C2)\<close>

text \<open>
  Claim C2. For every channel, the pulses-in-window delta that the sampler computes
  as the unsigned subtraction \<^verbatim>\<open>current_count - baseline_count\<close> equals the true
  number of pulses of the window, for every pair of counter values, also where the
  counter wrapped around between the samples, provided the true number of pulses is
  less than one full counter range (\<open>2 ^ 32\<close>). A window is what lies between two
  samples that the sampler accepts, at \<open>t1\<close> and at \<open>t2\<close>: the first sample
  (\<^verbatim>\<open>update_tacho_input_freq\<close> at \<open>t1\<close>) takes the counter, whatever it holds, as
  baseline; the true number of pulses is the number \<open>n\<close> of edge interrupts handled
  on the channel's pin after it. Then the delta \<^verbatim>\<open>fan_tacho_counters[i] -
  fan_tacho_counters_last[i]\<close> that the second sample reads is \<open>n\<close>, the frequency it
  stores is \<open>n\<close> divided by the seconds between the samples, and it takes the
  counter as the next baseline.
\<close>

theorem tacho_pulses_wraparound:
  assumes ok: "tacho_state_ok st"
    and mapped: "0 < unat (gpio_fan_tacho_map st ! unat (gpio AND 0x1f))"
    and n: "n < 2 ^ 32"
    and first: "\<not> absolute_time_diff_us (fan_tacho_last_read st) t1 < 1000000"
    and second: "\<not> absolute_time_diff_us t1 t2 < 1000000"
  shows "\<exists>st'. fan_tacho_edges n gpio (update_tacho_input_freq t1 st) = Some st' \<and>
      unat (tacho_pulses
              (fan_tacho_counters st' ! (unat (gpio_fan_tacho_map st ! unat (gpio AND 0x1f)) - 1))
              (fan_tacho_counters_last st' !
                 (unat (gpio_fan_tacho_map st ! unat (gpio AND 0x1f)) - 1))) = n \<and>
      fan_tacho_freq (update_tacho_input_freq t2 st') !
          (unat (gpio_fan_tacho_map st ! unat (gpio AND 0x1f)) - 1) =
        real n / (real_of_int (absolute_time_diff_us t1 t2) / 1000000) \<and>
      fan_tacho_counters_last (update_tacho_input_freq t2 st') !
          (unat (gpio_fan_tacho_map st ! unat (gpio AND 0x1f)) - 1) =
        fan_tacho_counters st' ! (unat (gpio_fan_tacho_map st ! unat (gpio AND 0x1f)) - 1)"
proof -
  define k where "k = unat (gpio_fan_tacho_map st ! unat (gpio AND 0x1f)) - 1"
  define s1 where "s1 = update_tacho_input_freq t1 st"
  have k: "k < FAN_MAX_COUNT"
    using map_entry_bound [OF ok, of gpio] mapped by (simp add: k_def)
  note u1 = update_accepted [OF ok first k, folded s1_def]
  have ok1: "tacho_state_ok s1" unfolding s1_def using ok by (rule update_ok)
  have mapped1: "0 < unat (gpio_fan_tacho_map s1 ! unat (gpio AND 0x1f))"
    using mapped by (simp add: u1)
  have k1: "unat (gpio_fan_tacho_map s1 ! unat (gpio AND 0x1f)) - 1 = k"
    by (simp add: u1 k_def)
  from edges_effect [OF ok1 mapped1, of n] obtain st' where
    run: "fan_tacho_edges n gpio s1 = Some st'"
    and cnt: "fan_tacho_counters st' ! k = fan_tacho_counters s1 ! k + of_nat n"
    and last: "fan_tacho_counters_last st' = fan_tacho_counters_last s1"
    and read: "fan_tacho_last_read st' = fan_tacho_last_read s1"
    and ok': "tacho_state_ok st'"
    unfolding k1 by blast
  have base: "fan_tacho_counters_last st' ! k = fan_tacho_counters s1 ! k"
    unfolding last u1(2) u1(4) ..
  have delta: "unat (tacho_pulses (fan_tacho_counters st' ! k)
                                  (fan_tacho_counters_last st' ! k)) = n"
    unfolding cnt base using n by (rule pulses_exact)
  have second': "\<not> absolute_time_diff_us (fan_tacho_last_read st') t2 < 1000000"
    using second unfolding read u1(3) .
  note u2 = update_accepted [OF ok' second' k]
  have "fan_tacho_freq (update_tacho_input_freq t2 st') ! k =
        real n / (real_of_int (absolute_time_diff_us t1 t2) / 1000000)"
    unfolding u2(1) delta read u1(3) ..
  with run delta u2(2) show ?thesis unfolding k_def s1_def by blast
qed

theorem tacho_pulses_wraparound_witness:
  "tacho_state_ok tacho_example \<and>
   gpio_fan_tacho_map tacho_example ! 2 = 1 \<and>
   (6 :: nat) < 2 ^ 32 \<and>
   absolute_time_diff_us (fan_tacho_last_read tacho_example) 2000500 = 2000000 \<and>
   absolute_time_diff_us 2000500 5000500 = 3000000 \<and>
   fan_tacho_counters tacho_example ! 0 = 4294967295 \<and>
   (\<exists>st'. fan_tacho_edges 6 2 (update_tacho_input_freq 2000500 tacho_example) = Some st' \<and>
      fan_tacho_counters_last st' ! 0 = 4294967295 \<and>
      fan_tacho_counters st' ! 0 = 5 \<and>
      unat (tacho_pulses (fan_tacho_counters st' ! 0) (fan_tacho_counters_last st' ! 0)) = 6 \<and>
      fan_tacho_freq (update_tacho_input_freq 5000500 st') ! 0 = 2)"
proof -
  note v = tacho_example_values tacho_example_times tacho_example_times2
  define s1 where "s1 = update_tacho_input_freq 2000500 tacho_example"
  have p: "0 < unat (gpio_fan_tacho_map tacho_example ! unat ((2 :: uint) AND 0x1f))"
    by (simp add: v)
  have n: "(6 :: nat) < 2 ^ 32" by simp
  have first: "\<not> absolute_time_diff_us (fan_tacho_last_read tacho_example) 2000500 < 1000000"
    by (simp add: v)
  have second: "\<not> absolute_time_diff_us 2000500 5000500 < 1000000"
    by (simp add: v)
  have z: "0 < FAN_MAX_COUNT" by (simp add: FAN_MAX_COUNT_def)
  note u = update_accepted [OF tacho_example_ok first z, folded s1_def]
  have ok1: "tacho_state_ok s1" unfolding s1_def using tacho_example_ok by (rule update_ok)
  have p1: "0 < unat (gpio_fan_tacho_map s1 ! unat ((2 :: uint) AND 0x1f))"
    by (simp add: u v)
  from tacho_pulses_wraparound [OF tacho_example_ok p n first second, folded s1_def]
  obtain st' where
    run: "fan_tacho_edges 6 2 s1 = Some st'"
    and d: "unat (tacho_pulses (fan_tacho_counters st' ! 0) (fan_tacho_counters_last st' ! 0)) = 6"
    and f: "fan_tacho_freq (update_tacho_input_freq 5000500 st') ! 0 = 2"
    by (auto simp: v)
  from edges_effect [OF ok1 p1, of 6] run
  have "fan_tacho_counters st' ! 0 = fan_tacho_counters s1 ! 0 + 6"
    "fan_tacho_counters_last st' = fan_tacho_counters_last s1"
    by (auto simp: u v)
  then have "fan_tacho_counters st' ! 0 = 5" "fan_tacho_counters_last st' ! 0 = 4294967295"
    by (simp_all add: u v)
  with run d f show ?thesis
    unfolding s1_def by (simp add: tacho_example_ok v)
qed

section \<open>The edge handler counts one pulse or nothing (C3)\<close>

text \<open>
  Claim C3, as stated: for every pin value, the edge handler
  \<^verbatim>\<open>fan_tacho_read_callback\<close> either increments exactly one channel's pulse counter
  by exactly 1 (when the pin is mapped) or changes no counter at all (when the pin
  is unmapped); in particular a pin that is bound to no configured channel is
  dropped silently and never changes a counter. The handler reads the map at index
  \<^verbatim>\<open>gpio & 0x1f\<close>: after \<^verbatim>\<open>setup_tacho_inputs\<close> for fans on the pins 2 to 9, pin 34
  is the pin of no fan, yet an edge reported for it is counted for the fan on pin 2
  (\<open>34 AND 0x1f = 2\<close>).
\<close>

theorem fan_tacho_read_callback_alias_counterexample:
  "setup_tacho_inputs setup_pins_example 500 = Some setup_example \<and>
   (34 :: nat) \<notin> set (map unat setup_pins_example) \<and>
   fan_tacho_counters setup_example = [0, 0, 0, 0, 0, 0, 0, 0] \<and>
   map_option fan_tacho_counters (fan_tacho_read_callback 34 setup_example) =
     Some [1, 0, 0, 0, 0, 0, 0, 0] \<and>
   fan_tacho_read_callback 34 setup_example \<noteq> Some setup_example"
  by (simp add: setup_example_eq) (simp add: setup_pins_example_def setup_example_def
      fan_tacho_read_callback_def)

text \<open>
  Claim C3, amended: for every pin value, the edge handler reads the entry of the
  pin-to-channel map at index \<^verbatim>\<open>gpio & 0x1f\<close>, which for every pin below 32 is the
  entry of that pin. It either increments exactly one channel's pulse counter by
  exactly 1 (when that entry is non-zero) or changes no counter at all (when it is
  zero). A pin below 32 that \<^verbatim>\<open>setup_tacho_inputs\<close> bound to no channel is dropped
  silently: the state is as it was. The handler never fails and never modifies
  frequencies, baselines, the timestamp or the map.
\<close>

theorem fan_tacho_read_callback_effect:
  assumes ok: "tacho_state_ok st"
  shows "(unat gpio < 32 \<longrightarrow> gpio AND 0x1f = gpio) \<and>
    (\<exists>st'. fan_tacho_read_callback gpio st = Some st' \<and>
         fan_tacho_freq st' = fan_tacho_freq st \<and>
         fan_tacho_counters_last st' = fan_tacho_counters_last st \<and>
         fan_tacho_last_read st' = fan_tacho_last_read st \<and>
         gpio_fan_tacho_map st' = gpio_fan_tacho_map st \<and>
         (if gpio_fan_tacho_map st ! unat (gpio AND 0x1f) = 0
          then fan_tacho_counters st' = fan_tacho_counters st
          else unat (gpio_fan_tacho_map st ! unat (gpio AND 0x1f)) - 1 < FAN_MAX_COUNT \<and>
            (\<forall>i < FAN_MAX_COUNT. fan_tacho_counters st' ! i =
               (if i = unat (gpio_fan_tacho_map st ! unat (gpio AND 0x1f)) - 1
                then fan_tacho_counters st ! i + 1 else fan_tacho_counters st ! i)))) \<and>
    (setup_tacho_inputs pins t0 = Some st0 \<and>
     gpio_fan_tacho_map st = gpio_fan_tacho_map st0 \<and>
     unat gpio < 32 \<and> unat gpio \<notin> set (map unat pins) \<longrightarrow>
       fan_tacho_read_callback gpio st = Some st)"
proof -
  have "fan_tacho_read_callback gpio st = Some st"
    if s: "setup_tacho_inputs pins t0 = Some st0"
      and m: "gpio_fan_tacho_map st = gpio_fan_tacho_map st0"
      and g: "unat gpio < 32" and u: "unat gpio \<notin> set (map unat pins)"
  proof -
    from u have "unat gpio \<notin> unat ` set pins" by simp
    with s g have "gpio_fan_tacho_map st0 ! unat gpio = 0" by (rule setup_unmapped_pin)
    with m pin_mask_id [OF g] have "unat (gpio_fan_tacho_map st ! unat (gpio AND 0x1f)) = 0"
      by simp
    with ok show ?thesis by (rule callback_unmapped)
  qed
  with callback_effect [OF ok, of gpio] pin_mask_id [of gpio] show ?thesis by blast
qed

theorem fan_tacho_read_callback_effect_witness:
  "tacho_state_ok tacho_example \<and>
   unat (2 :: uint) < 32 \<and> (2 :: uint) AND 0x1f = 2 \<and>
   gpio_fan_tacho_map tacho_example ! 2 = 1 \<and>
   (\<exists>st'. fan_tacho_read_callback 2 tacho_example = Some st' \<and>
      fan_tacho_counters st' ! 0 = 0 \<and> fan_tacho_counters st' ! 2 = 7 \<and>
      fan_tacho_freq st' = fan_tacho_freq tacho_example \<and>
      fan_tacho_counters_last st' = fan_tacho_counters_last tacho_example \<and>
      fan_tacho_last_read st' = fan_tacho_last_read tacho_example) \<and>
   gpio_fan_tacho_map tacho_example ! 3 = 0 \<and>
   (\<exists>st'. fan_tacho_read_callback 3 tacho_example = Some st' \<and>
      fan_tacho_counters st' = fan_tacho_counters tacho_example) \<and>
   tacho_state_ok setup_example \<and>
   setup_tacho_inputs setup_pins_example 500 = Some setup_example \<and>
   unat (10 :: uint) < 32 \<and> unat (10 :: uint) \<notin> set (map unat setup_pins_example) \<and>
   fan_tacho_read_callback 10 setup_example = Some setup_example"
proof -
  note v = tacho_example_values
  have f: "0 < FAN_MAX_COUNT" "2 < FAN_MAX_COUNT" by (simp_all add: FAN_MAX_COUNT_def)
  from fan_tacho_read_callback_effect [OF tacho_example_ok, of 2, THEN conjunct2, THEN conjunct1]
  obtain st' where
    r: "fan_tacho_read_callback 2 tacho_example = Some st'"
      "fan_tacho_freq st' = fan_tacho_freq tacho_example"
      "fan_tacho_counters_last st' = fan_tacho_counters_last tacho_example"
      "fan_tacho_last_read st' = fan_tacho_last_read tacho_example"
    and c: "\<forall>i < FAN_MAX_COUNT. fan_tacho_counters st' ! i =
           (if i = 0 then fan_tacho_counters tacho_example ! i + 1
            else fan_tacho_counters tacho_example ! i)"
    by (auto simp: v)
  from c f have "fan_tacho_counters st' ! 0 = 0" "fan_tacho_counters st' ! 2 = 7"
    by (simp_all add: v)
  with r have a:
    "\<exists>st'. fan_tacho_read_callback 2 tacho_example = Some st' \<and>
      fan_tacho_counters st' ! 0 = 0 \<and> fan_tacho_counters st' ! 2 = 7 \<and>
      fan_tacho_freq st' = fan_tacho_freq tacho_example \<and>
      fan_tacho_counters_last st' = fan_tacho_counters_last tacho_example \<and>
      fan_tacho_last_read st' = fan_tacho_last_read tacho_example"
    by simp
  from fan_tacho_read_callback_effect [OF tacho_example_ok, of 3, THEN conjunct2, THEN conjunct1]
  have b:
    "\<exists>st'. fan_tacho_read_callback 3 tacho_example = Some st' \<and>
      fan_tacho_counters st' = fan_tacho_counters tacho_example"
    by (auto simp: v)
  have u: "unat (10 :: uint) < 32" "unat (10 :: uint) \<notin> set (map unat setup_pins_example)"
    by (simp_all add: setup_pins_example_def)
  from fan_tacho_read_callback_effect
    [OF setup_example_ok, of 10 setup_pins_example 500 setup_example,
      THEN conjunct2, THEN conjunct2] setup_example_eq u
  have d: "fan_tacho_read_callback 10 setup_example = Some setup_example"
    by simp
  from a b d u show ?thesis by (simp add: tacho_example_ok setup_example_ok setup_example_eq v)
qed

section \<open>Facts about the lossy peak filter\<close>

lemma lossy_peak_filter_returns_peak:
  "snd (lossy_peak_filter c t_now input) = peak (fst (lossy_peak_filter c t_now input))"
  by (simp add: lossy_peak_filter_def Let_def split: prod.splits)

lemma lossy_peak_filter_decay_kept:
  "decay (fst (lossy_peak_filter c t_now input)) = decay c"
  by (simp add: lossy_peak_filter_def Let_def split: prod.splits)

lemma lossy_peak_filter_decay0:
  assumes "decay c = 0"
  shows "peak (fst (lossy_peak_filter c t_now input)) =
           (if peak c \<le> input then input else peak c)"
  using assms by (simp add: lossy_peak_filter_def Let_def split: prod.splits)

lemma hold0_example_fields:
  "delay_us hold0_example = 0" "state hold0_example = 0" "peak hold0_example = 10"
  "decay hold0_example = 2" "last_t hold0_example = 0"
  by (simp_all add: hold0_example_def)

lemma held_example_fields:
  "decay held_example = 0" "peak held_example = 10" "state held_example = 1"
  by (simp_all add: held_example_def)

section \<open>A zero hold delay (C4)\<close>

text \<open>
  Claim C4, as stated: with \<open>hold_delay = 0\<close>, an input below the peak in the TRACKING
  phase moves the filter to DECAYING with a decay span of zero carried into that
  first decaying step. The code does move to DECAYING at once, but the span it
  carries is \<^verbatim>\<open>t_d\<close>, the time since the previous call. For the context
  \<open>hold0_example\<close> (peak 10, decay 2 per second, delay 0, TRACKING, last call at
  time 0) and the input 0 at time 1000000 the span is 1000000 microseconds, not 0,
  and the call returns 8, where a span of zero would have left the peak at 10.
\<close>

theorem lossy_peak_hold_zero_span_counterexample:
  "delay_us hold0_example = 0 \<and> state hold0_example = 0 \<and> 0 < peak hold0_example \<and>
   lossy_peak_hold hold0_example 1000000 = (1, 1000000) \<and>
   snd (lossy_peak_hold hold0_example 1000000) \<noteq> 0 \<and>
   snd (lossy_peak_filter hold0_example 1000000 0) = 8 \<and>
   snd (lossy_peak_filter hold0_example 1000000 0) \<noteq> peak hold0_example"
  by (simp add: hold0_example_def lossy_peak_hold_def lossy_peak_filter_def
      absolute_time_diff_us_def Let_def)

text \<open>
  Claim C4, amended: for a context with \<open>hold_delay = 0\<close> (\<open>delay_us = 0\<close>) in the
  TRACKING phase, an input below the peak moves the filter to DECAYING in that same
  call, with no grace period, and the decay span of this first decaying step is the
  time since the previous call, \<^verbatim>\<open>now - last_t\<close>: the peak drops by that span (in
  seconds) times the decay rate, or to the input if that is higher.
\<close>

theorem lossy_peak_hold_zero_delay:
  assumes "delay_us c = 0" and "state c = 0" and "input < peak c"
  shows "lossy_peak_hold c t_now = (1, absolute_time_diff_us (last_t c) t_now) \<and>
         state (fst (lossy_peak_filter c t_now input)) = 1 \<and>
         snd (lossy_peak_filter c t_now input) =
           (if input > peak c -
                 real_of_int (absolute_time_diff_us (last_t c) t_now) / 1000000 * decay c
            then input
            else peak c -
                 real_of_int (absolute_time_diff_us (last_t c) t_now) / 1000000 * decay c)"
  using assms by (simp add: lossy_peak_filter_def lossy_peak_hold_def Let_def)

theorem lossy_peak_hold_zero_delay_witness:
  "delay_us hold0_example = 0 \<and> state hold0_example = 0 \<and> (9 :: real) < peak hold0_example \<and>
   lossy_peak_hold hold0_example 250000 = (1, 250000) \<and>
   state (fst (lossy_peak_filter hold0_example 250000 9)) = 1 \<and>
   snd (lossy_peak_filter hold0_example 250000 9) = 19 / 2"
proof -
  note f = hold0_example_fields
  have d: "absolute_time_diff_us 0 250000 = 250000"
    by (simp add: absolute_time_diff_us_def)
  have a: "delay_us hold0_example = 0" and b: "state hold0_example = 0"
    and c: "(9 :: real) < peak hold0_example"
    by (simp_all add: f)
  from lossy_peak_hold_zero_delay [OF a b c, of 250000] a b c show ?thesis
    by (simp add: f d)
qed

section \<open>A zero decay rate (C9)\<close>

text \<open>
  Claim C9. For a lossy peak context with \<open>decay_rate = 0\<close> the tracked peak never
  decreases, over any sequence of calls and whatever the times of the calls: the
  values returned by a run of calls, preceded by the peak before the run, are in
  ascending order. A call changes the peak only when its input is greater than or
  equal to the peak, and then the peak becomes that input.
\<close>

theorem lossy_peak_zero_decay_holds:
  assumes "decay c = 0"
  shows "sorted (peak c # lossy_peak_run c calls) \<and>
         peak (fst (lossy_peak_filter c t_now input)) =
           (if peak c \<le> input then input else peak c)"
proof -
  have "sorted (peak c # lossy_peak_run c calls)"
    using assms
  proof (induction calls arbitrary: c)
    case Nil
    then show ?case by simp
  next
    case (Cons call calls)
    obtain t x where call: "call = (t, x)" by (cases call)
    let ?c' = "fst (lossy_peak_filter c t x)"
    have d: "decay ?c' = 0"
      using Cons.prems by (simp add: lossy_peak_filter_decay_kept)
    have le: "peak c \<le> peak ?c'"
      using Cons.prems by (simp add: lossy_peak_filter_decay0)
    from Cons.IH [OF d] have "sorted (peak ?c' # lossy_peak_run ?c' calls)" .
    with le have "sorted (peak c # peak ?c' # lossy_peak_run ?c' calls)"
      by auto
    then show ?case by (simp add: call lossy_peak_filter_returns_peak)
  qed
  with lossy_peak_filter_decay0 [OF assms] show ?thesis by simp
qed

theorem lossy_peak_zero_decay_holds_witness:
  "decay held_example = 0 \<and>
   sorted (peak held_example #
           lossy_peak_run held_example [(1000000, 3), (9000000000000, 0), (9000000000001, 12)]) \<and>
   peak (fst (lossy_peak_filter held_example 9000000000000 0)) = 10 \<and>
   peak (fst (lossy_peak_filter held_example 9000000000001 12)) = 12"
proof -
  note f = held_example_fields
  have a: "decay held_example = 0" by (simp add: f)
  from lossy_peak_zero_decay_holds
      [of held_example "[(1000000, 3), (9000000000000, 0), (9000000000001, 12)]"
        9000000000000 0, OF a]
    lossy_peak_zero_decay_holds [of held_example "[]" 9000000000001 12, OF a] a
  show ?thesis by (simp add: f)
qed

section \<open>The filter never returns less than its input (C10)\<close>

text \<open>
  Claim C10. Invariant of the lossy peak transform (for non-negative decay rates, and
  in fact for every decay rate): the value returned by a call is the tracked peak
  after the call and is greater than or equal to the input of that call, so the
  peak never drops below the current input, decaying or not; and the peak is
  non-decreasing except in the DECAYING phase: a call that leaves the context
  outside the DECAYING phase has not lowered the peak.
\<close>

theorem lossy_peak_filter_bounds:
  "input \<le> snd (lossy_peak_filter c t_now input) \<and>
   snd (lossy_peak_filter c t_now input) = peak (fst (lossy_peak_filter c t_now input)) \<and>
   (state (fst (lossy_peak_filter c t_now input)) \<noteq> 1 \<longrightarrow>
      peak c \<le> peak (fst (lossy_peak_filter c t_now input)))"
  by (simp add: lossy_peak_filter_def Let_def split: prod.splits)

theorem lossy_peak_filter_bounds_witness:
  "state (fst (lossy_peak_filter tracking_example 300000 0)) \<noteq> 1 \<and>
   (0 :: real) \<le> decay tracking_example \<and>
   (0 :: real) \<le> snd (lossy_peak_filter tracking_example 300000 0) \<and>
   peak tracking_example \<le> peak (fst (lossy_peak_filter tracking_example 300000 0)) \<and>
   (7 :: real) \<le> snd (lossy_peak_filter tracking_example 1300000 7)"
proof -
  have s: "state (fst (lossy_peak_filter tracking_example 300000 0)) \<noteq> 1"
    by (simp add: tracking_example_def lossy_peak_filter_def lossy_peak_hold_def
        absolute_time_diff_us_def Let_def)
  have d: "0 \<le> decay tracking_example" by (simp add: tracking_example_def)
  from lossy_peak_filter_bounds [of 0 tracking_example 300000]
    lossy_peak_filter_bounds [of 7 tracking_example 1300000] s d
  show ?thesis by simp
qed

section \<open>Facts about the filter table\<close>

lemma strcasecmp_zero_iff: "strcasecmp a b = 0 \<longleftrightarrow> map tolower a = map tolower b"
  by (induction a b rule: strcasecmp.induct) auto

lemma tolower_names:
  "tolower CHR ''n'' = CHR ''n''" "tolower CHR ''o'' = CHR ''o''" "tolower CHR ''e'' = CHR ''e''"
  "tolower CHR ''l'' = CHR ''l''" "tolower CHR ''s'' = CHR ''s''" "tolower CHR ''y'' = CHR ''y''"
  "tolower CHR ''p'' = CHR ''p''" "tolower CHR ''a'' = CHR ''a''" "tolower CHR ''k'' = CHR ''k''"
  by (simp_all add: tolower_def)

lemma tolower_upper:
  "tolower CHR ''N'' = CHR ''n''" "tolower CHR ''O'' = CHR ''o''" "tolower CHR ''E'' = CHR ''e''"
  "tolower CHR ''L'' = CHR ''l''" "tolower CHR ''S'' = CHR ''s''" "tolower CHR ''Y'' = CHR ''y''"
  by (simp_all add: tolower_def char_of_eq_iff)

lemma str2pwm_filter_eq:
  "str2pwm_filter s =
     (if map tolower s = ''lossypeak'' then FILTER_LOSSYPEAK else FILTER_NONE)"
  by (simp add: str2pwm_filter_def filters_def strcasecmp_zero_iff tolower_names
      FILTER_NONE_def FILTER_LOSSYPEAK_def)

lemma filters_at_values:
  "filters_at 0 = Inr (filters ! 0)"
  "filters_at 1 = Inr (filters ! 1)"
  "filters_at 2 = Inr (filters ! 2)"
  "f < 0 \<or> 2 < f \<Longrightarrow> filters_at f = Inl OutOfBounds"
  by (auto simp: filters_at_def filters_def)

lemma filters_nth:
  "filters ! 0 = \<lparr>name = Some ''none'', parse_args_func = None, print_args_func = None,
       filter_func = None\<rparr>"
  "filters ! 2 = \<lparr>name = None, parse_args_func = None, print_args_func = None,
       filter_func = None\<rparr>"
  by (simp_all add: filters_def)

lemma pwm_filter2str_eq:
  "pwm_filter2str f = (if f = 1 then ''lossypeak'' else ''none'')"
  by (simp add: pwm_filter2str_def filters_def)

section \<open>Selectors outside the table (C5)\<close>

text \<open>
  Claim C5, as stated: for every selector outside the range of the known filter
  variants, \<^verbatim>\<open>pwm_filter2str\<close> returns "none" and \<^verbatim>\<open>filter\<close>, \<^verbatim>\<open>filter_parse_args\<close> and
  \<^verbatim>\<open>filter_print_args\<close> behave as for "none", never failing. The three dispatch
  functions index the table with the selector unchecked: for the selector 3 the
  access \<^verbatim>\<open>filters[3]\<close> lies outside the three entries of the table, where the
  "none" selector returns the input.
\<close>

theorem filter_out_of_range_counterexample:
  "FILTER_LOSSYPEAK < 3 \<and>
   pwm_filter2str 3 = ''none'' \<and>
   filter 3 None 0 5 = Inl OutOfBounds \<and>
   filter FILTER_NONE None 0 5 = Inr (None, 5) \<and>
   filter 3 None 0 5 \<noteq> filter FILTER_NONE None 0 5"
  by (simp add: filter_def FILTER_NONE_def FILTER_LOSSYPEAK_def filters_at_values
      filters_nth pwm_filter2str_eq)

text \<open>
  Claim C5, amended: for every selector outside the range of the known filter
  variants, \<^verbatim>\<open>pwm_filter2str\<close> returns "none". The selector just past the last
  variant (2, the entry that ends the table, with no name and no operations)
  dispatches as "none" does: \<^verbatim>\<open>filter\<close> returns its input, \<^verbatim>\<open>filter_parse_args\<close> and
  \<^verbatim>\<open>filter_print_args\<close> return null, and the heap is untouched. For every other
  selector outside the range the three dispatch functions read outside the table.
\<close>

theorem filter_out_of_range:
  assumes "f < FILTER_NONE \<or> FILTER_LOSSYPEAK < f"
  shows "pwm_filter2str f = ''none'' \<and>
    (f = 2 \<longrightarrow>
       filter f ctx t_now input = Inr (ctx, input) \<and>
       filter f ctx t_now input = filter FILTER_NONE ctx t_now input \<and>
       filter_parse_args stf t_now h f args = Inr (None, h) \<and>
       filter_parse_args stf t_now h f args = filter_parse_args stf t_now h FILTER_NONE args \<and>
       filter_print_args f ctx h = Inr (None, h) \<and>
       filter_print_args f ctx h = filter_print_args FILTER_NONE ctx h) \<and>
    (f \<noteq> 2 \<longrightarrow>
       filter f ctx t_now input = Inl OutOfBounds \<and>
       filter_parse_args stf t_now h f args = Inl OutOfBounds \<and>
       filter_print_args f ctx h = Inl OutOfBounds)"
proof -
  from assms have r: "f < 0 \<or> 1 < f"
    by (simp add: FILTER_NONE_def FILTER_LOSSYPEAK_def)
  then have a: "pwm_filter2str f = ''none''"
    by (auto simp: pwm_filter2str_eq)
  have b: "filter 2 ctx t_now input = Inr (ctx, input)"
    "filter FILTER_NONE ctx t_now input = Inr (ctx, input)"
    "filter_parse_args stf t_now h 2 args = Inr (None, h)"
    "filter_parse_args stf t_now h FILTER_NONE args = Inr (None, h)"
    "filter_print_args 2 ctx h = Inr (None, h)"
    "filter_print_args FILTER_NONE ctx h = Inr (None, h)"
    by (simp_all add: filter_def filter_parse_args_def filter_print_args_def
        FILTER_NONE_def filters_at_values filters_nth)
  have c: "f \<noteq> 2 \<longrightarrow>
       filter f ctx t_now input = Inl OutOfBounds \<and>
       filter_parse_args stf t_now h f args = Inl OutOfBounds \<and>
       filter_print_args f ctx h = Inl OutOfBounds"
  proof
    assume "f \<noteq> 2"
    with r have "f < 0 \<or> 2 < f" by arith
    then have "filters_at f = Inl OutOfBounds" by (rule filters_at_values)
    then show "filter f ctx t_now input = Inl OutOfBounds \<and>
       filter_parse_args stf t_now h f args = Inl OutOfBounds \<and>
       filter_print_args f ctx h = Inl OutOfBounds"
      by (simp add: filter_def filter_parse_args_def filter_print_args_def)
  qed
  from a b c show ?thesis by simp
qed

theorem filter_out_of_range_witness:
  "FILTER_LOSSYPEAK < 2 \<and>
   pwm_filter2str 2 = ''none'' \<and>
   filter 2 None 0 5 = Inr (None, 5) \<and>
   filter_parse_args str_to_float_decimal 0 \<lparr>heap_used = 0, heap_avail = 1\<rparr> 2 (Some ''2.0,0.5'')
     = Inr (None, \<lparr>heap_used = 0, heap_avail = 1\<rparr>) \<and>
   filter_print_args 2 None \<lparr>heap_used = 0, heap_avail = 1\<rparr>
     = Inr (None, \<lparr>heap_used = 0, heap_avail = 1\<rparr>) \<and>
   - 1 < FILTER_NONE \<and>
   pwm_filter2str (- 1) = ''none'' \<and>
   filter (- 1) None 0 5 = Inl OutOfBounds"
proof -
  have a: "FILTER_LOSSYPEAK < 2" and b: "- 1 < FILTER_NONE"
    by (simp_all add: FILTER_NONE_def FILTER_LOSSYPEAK_def)
  from a have a': "2 < FILTER_NONE \<or> FILTER_LOSSYPEAK < 2" by simp
  from b have b': "- 1 < FILTER_NONE \<or> FILTER_LOSSYPEAK < - 1" by simp
  from filter_out_of_range [OF a', of None 0 5 str_to_float_decimal
        "\<lparr>heap_used = 0, heap_avail = 1\<rparr>" "Some ''2.0,0.5''"]
    filter_out_of_range [OF b', of None 0 5] a b
  show ?thesis by simp
qed

section \<open>Resolving a filter name (C6)\<close>

text \<open>
  Claim C6. For every input string, \<^verbatim>\<open>str2pwm_filter\<close> matches the string against the
  known filter names without regard to case, exactly (the whole string): a string
  equal to "lossypeak" up to case gives \<^verbatim>\<open>FILTER_LOSSYPEAK\<close>, a string equal to "none"
  up to case gives \<^verbatim>\<open>FILTER_NONE\<close>, and every other string gives \<^verbatim>\<open>FILTER_NONE\<close> as
  well, never an error. The transform of the "none" selector returns its input
  unchanged, for every input and every context (null included), and leaves the
  context alone.
\<close>

theorem str2pwm_filter_resolves:
  "str2pwm_filter s =
     (if map tolower s = ''lossypeak'' then FILTER_LOSSYPEAK else FILTER_NONE) \<and>
   (map tolower s = ''none'' \<longrightarrow> str2pwm_filter s = FILTER_NONE) \<and>
   filter FILTER_NONE ctx t_now input = Inr (ctx, input)"
  by (simp add: str2pwm_filter_eq filter_def FILTER_NONE_def filters_at_values filters_nth)

theorem str2pwm_filter_resolves_witness:
  "map tolower ''NonE'' = ''none'' \<and> str2pwm_filter ''NonE'' = FILTER_NONE \<and>
   map tolower ''LOSSYpeak'' = ''lossypeak'' \<and> str2pwm_filter ''LOSSYpeak'' = FILTER_LOSSYPEAK \<and>
   str2pwm_filter ''lossy'' = FILTER_NONE \<and>
   filter FILTER_NONE (Some held_example) 0 5 = Inr (Some held_example, 5)"
proof -
  note l = tolower_names tolower_upper
  have a: "map tolower ''NonE'' = ''none''" and b: "map tolower ''LOSSYpeak'' = ''lossypeak''"
    and c: "map tolower ''lossy'' \<noteq> ''lossypeak''"
    by (simp_all add: l)
  from str2pwm_filter_resolves [of "''NonE''"]
    str2pwm_filter_resolves [of "''LOSSYpeak''"]
    str2pwm_filter_resolves [of "''lossy''" "Some held_example" 0 5] a b c
  show ?thesis by (simp add: l)
qed

section \<open>Facts about rounding, tokens, digits and numbers\<close>

lemma round_half_even_error: "\<bar>real_of_int (round_half_even y) - y\<bar> \<le> 1 / 2"
proof -
  have "real_of_int \<lfloor>y\<rfloor> \<le> y" "y < real_of_int \<lfloor>y\<rfloor> + 1" by linarith+
  then show ?thesis
    by (auto simp: round_half_even_def Let_def)
qed

lemma round_half_even_of_int: "round_half_even (real_of_int n) = n"
  by (simp add: round_half_even_def)

lemma pow2_pos: "0 < pow2 e"
  by (simp add: pow2_def)

lemma pow2_Suc: "pow2 (e + 1) = 2 * pow2 e"
proof (cases "0 \<le> e")
  case True
  then show ?thesis by (simp add: pow2_def nat_add_distrib)
next
  case False
  then have "nat (- e) = Suc (nat (- (e + 1)))" by simp
  with False show ?thesis by (auto simp: pow2_def)
qed

lemma pow2_of_nat: "pow2 (int k) = 2 ^ k"
  by (simp add: pow2_def)

lemma pow2_minus_nat: "pow2 (- int k) = 1 / 2 ^ k"
  by (cases k) (simp_all add: pow2_def nat_add_distrib)

lemma pow2_diff_nat: "pow2 (e - int k) = pow2 e / 2 ^ k"
proof (induction k)
  case 0
  then show ?case by simp
next
  case (Suc k)
  have "pow2 (e - int k) = 2 * pow2 (e - int (Suc k))"
    using pow2_Suc [of "e - int (Suc k)"] by (simp add: algebra_simps)
  with Suc show ?case by simp
qed

lemma pow2_mono: "a \<le> b \<Longrightarrow> pow2 a \<le> pow2 b"
proof -
  assume "a \<le> b"
  define k where "k = nat (b - a)"
  with \<open>a \<le> b\<close> have "a = b - int k" by simp
  then have "pow2 a = pow2 b / 2 ^ k" by (simp only: pow2_diff_nat)
  also have "\<dots> \<le> pow2 b" using pow2_pos [of b] by (simp add: field_simps)
  finally show ?thesis .
qed

lemma nat_log2_bounds: "0 < n \<Longrightarrow> 2 ^ nat_log2 n \<le> n \<and> n < 2 ^ Suc (nat_log2 n)"
proof (induction n rule: nat_log2.induct)
  case (1 n)
  show ?case
  proof (cases "n < 2")
    case True
    with "1.prems" show ?thesis by (simp add: nat_log2.simps)
  next
    case False
    then have eq: "nat_log2 n = Suc (nat_log2 (n div 2))" by (subst nat_log2.simps) simp
    from False have "0 < n div 2" by simp
    with "1.IH" False have ih: "2 ^ nat_log2 (n div 2) \<le> n div 2"
      "n div 2 < 2 ^ Suc (nat_log2 (n div 2))" by simp_all
    from ih show ?thesis unfolding eq by (simp; linarith)
  qed
qed

lemma power2_of_nat_le: "(2::nat) ^ k \<le> n \<Longrightarrow> (2::real) ^ k \<le> real n"
proof -
  assume "(2::nat) ^ k \<le> n"
  then have "real ((2::nat) ^ k) \<le> real n" by (simp only: of_nat_le_iff)
  then show ?thesis by simp
qed

lemma of_nat_le_power2: "n \<le> (2::nat) ^ k \<Longrightarrow> real n \<le> (2::real) ^ k"
proof -
  assume "n \<le> (2::nat) ^ k"
  then have "real n \<le> real ((2::nat) ^ k)" by (simp only: of_nat_le_iff)
  then show ?thesis by simp
qed

lemma flog2_bounds:
  assumes "0 < x"
  shows "pow2 (flog2 x) \<le> x \<and> x < pow2 (flog2 x + 1)"
proof (cases "1 \<le> x")
  case True
  define n where "n = nat \<lfloor>x\<rfloor>"
  from True have "1 \<le> \<lfloor>x\<rfloor>" by simp
  then have n: "0 < n" and rn: "real n = real_of_int \<lfloor>x\<rfloor>" by (simp_all add: n_def)
  have e: "flog2 x = int (nat_log2 n)" using True by (simp add: flog2_def n_def)
  from nat_log2_bounds [OF n] have b: "2 ^ nat_log2 n \<le> n" "n < 2 ^ Suc (nat_log2 n)"
    by simp_all
  have nx: "real n \<le> x" "x < real n + 1" unfolding rn by linarith+
  from b(1) have "(2::real) ^ nat_log2 n \<le> real n" by (rule power2_of_nat_le)
  with nx have lo: "pow2 (flog2 x) \<le> x" unfolding e pow2_of_nat by linarith
  from b(2) have "Suc n \<le> 2 ^ Suc (nat_log2 n)" by simp
  then have "real (Suc n) \<le> 2 ^ Suc (nat_log2 n)" by (rule of_nat_le_power2)
  with nx have "x < 2 ^ Suc (nat_log2 n)" by simp
  moreover have "flog2 x + 1 = int (Suc (nat_log2 n))" by (simp add: e)
  ultimately have hi: "x < pow2 (flog2 x + 1)" by (simp only: pow2_of_nat)
  from lo hi show ?thesis ..
next
  case False
  define y where "y = 1 / x"
  define m where "m = nat \<lceil>y\<rceil>"
  define k where "k = nat_log2 (m - 1)"
  from False assms have y: "1 < y" by (simp add: y_def)
  then have c2: "2 \<le> \<lceil>y\<rceil>" by linarith
  then have m2: "2 \<le> m" unfolding m_def by linarith
  from c2 have rm: "real m = real_of_int \<lceil>y\<rceil>" unfolding m_def by simp
  from m2 have m1: "0 < m - 1" by simp
  have e: "flog2 x = - int (Suc k)" using False by (simp add: flog2_def k_def m_def y_def)
  from nat_log2_bounds [OF m1] have b: "2 ^ k \<le> m - 1" "m - 1 < 2 ^ Suc k"
    by (simp_all add: k_def)
  have ym: "y \<le> real m" "real m < y + 1" unfolding rm by linarith+
  from b(2) m2 have "m \<le> 2 ^ Suc k" by simp
  then have "real m \<le> 2 ^ Suc k" by (rule of_nat_le_power2)
  with ym have "y \<le> 2 ^ Suc k" by linarith
  then have "1 / 2 ^ Suc k \<le> x" using assms by (simp add: y_def field_simps)
  then have lo: "pow2 (flog2 x) \<le> x" unfolding e by (simp only: pow2_minus_nat)
  from b(1) have "(2::real) ^ k \<le> real (m - 1)" by (rule power2_of_nat_le)
  moreover have "real (m - 1) = real m - 1" using m2 by (simp add: of_nat_diff)
  ultimately have "2 ^ k < y" using ym by linarith
  then have "x < 1 / 2 ^ k" using assms by (simp add: y_def field_simps)
  moreover have "flog2 x + 1 = - int k" by (simp add: e)
  ultimately have hi: "x < pow2 (flog2 x + 1)" by (simp only: pow2_minus_nat)
  from lo hi show ?thesis ..
qed

lemma fp_rnd_error:
  "\<bar>fp_rnd p emin x - x\<bar> \<le> \<bar>x\<bar> / 2 ^ p + pow2 (emin - int p)"
proof (cases "x = 0")
  case True
  then show ?thesis using pow2_pos [of "emin - int p"] by (simp add: fp_rnd_def)
next
  case False
  define e where "e = max (flog2 \<bar>x\<bar>) emin"
  define q where "q = pow2 (e - int p + 1)"
  define m where "m = round_half_even (\<bar>x\<bar> / q)"
  have q: "0 < q" by (simp add: q_def pow2_pos)
  have r: "fp_rnd p emin x = (if x < 0 then - 1 else 1) * real_of_int m * q"
    using False by (simp add: fp_rnd_def Let_def e_def q_def m_def)
  have h: "\<bar>real_of_int m - \<bar>x\<bar> / q\<bar> \<le> 1 / 2"
    unfolding m_def by (rule round_half_even_error)
  have "real_of_int m * q - \<bar>x\<bar> = (real_of_int m - \<bar>x\<bar> / q) * q"
    using q by (simp add: field_simps)
  then have "\<bar>real_of_int m * q - \<bar>x\<bar>\<bar> = \<bar>real_of_int m - \<bar>x\<bar> / q\<bar> * q"
    using q by (simp add: abs_mult)
  also have "\<dots> \<le> 1 / 2 * q" using h q by (intro mult_right_mono) simp_all
  finally have d: "\<bar>real_of_int m * q - \<bar>x\<bar>\<bar> \<le> q / 2" by simp
  have "\<bar>fp_rnd p emin x - x\<bar> = \<bar>real_of_int m * q - \<bar>x\<bar>\<bar>"
  proof (cases "x < 0")
    case True
    then have "fp_rnd p emin x - x = - (real_of_int m * q - \<bar>x\<bar>)" by (simp add: r)
    then show ?thesis by (simp only: abs_minus)
  next
    case False
    then show ?thesis by (simp add: r)
  qed
  with d have err: "\<bar>fp_rnd p emin x - x\<bar> \<le> q / 2" by simp
  have q2: "q / 2 = pow2 (e - int p)"
    unfolding q_def using pow2_Suc [of "e - int p"] by simp
  have "pow2 (e - int p) \<le> \<bar>x\<bar> / 2 ^ p + pow2 (emin - int p)"
  proof (cases "emin \<le> flog2 \<bar>x\<bar>")
    case True
    then have "e = flog2 \<bar>x\<bar>" by (simp add: e_def)
    moreover have "pow2 (flog2 \<bar>x\<bar>) \<le> \<bar>x\<bar>" using flog2_bounds [of "\<bar>x\<bar>"] False by simp
    ultimately have "pow2 (e - int p) \<le> \<bar>x\<bar> / 2 ^ p"
      by (simp add: pow2_diff_nat divide_right_mono)
    with pow2_pos [of "emin - int p"] show ?thesis by linarith
  next
    case False
    then have "e = emin" by (simp add: e_def)
    then show ?thesis by simp
  qed
  with err q2 show ?thesis by linarith
qed

lemma float_rnd_error: "\<bar>float_rnd x - x\<bar> \<le> \<bar>x\<bar> / 2 ^ 24 + 1 / 2 ^ 150"
  using fp_rnd_error [of 24 "- 126" x] pow2_minus_nat [of 150]
  by (simp add: float_rnd_def)

lemma double_rnd_error: "\<bar>double_rnd x - x\<bar> \<le> \<bar>x\<bar> / 2 ^ 53 + 1 / 2 ^ 1075"
  using fp_rnd_error [of 53 "- 1022" x] pow2_minus_nat [of 1075]
  by (simp add: double_rnd_def)

lemma round_half_even_nonneg: "0 \<le> y \<Longrightarrow> 0 \<le> round_half_even y"
  by (auto simp: round_half_even_def Let_def)

lemma printf_f_value_error: "\<bar>printf_f_value x - x\<bar> \<le> 1 / 2000000"
proof -
  define m where "m = round_half_even (\<bar>x\<bar> * 1000000)"
  have m0: "0 \<le> m" unfolding m_def by (rule round_half_even_nonneg) simp
  have e: "\<bar>real_of_int m - \<bar>x\<bar> * 1000000\<bar> \<le> 1 / 2"
    unfolding m_def by (rule round_half_even_error)
  from m0 have v: "printf_f_value x = (if x < 0 then - 1 else 1) * real_of_int m / 1000000"
    by (simp add: printf_f_value_def m_def)
  have "real_of_int m / 1000000 - \<bar>x\<bar> = (real_of_int m - \<bar>x\<bar> * 1000000) / 1000000"
    by simp
  then have "\<bar>real_of_int m / 1000000 - \<bar>x\<bar>\<bar> = \<bar>real_of_int m - \<bar>x\<bar> * 1000000\<bar> / 1000000"
    by (simp only: abs_divide)
  with e have d: "\<bar>real_of_int m / 1000000 - \<bar>x\<bar>\<bar> \<le> 1 / 2000000" by simp
  show ?thesis
  proof (cases "x < 0")
    case True
    then have "printf_f_value x - x = - (real_of_int m / 1000000 - \<bar>x\<bar>)" by (simp add: v)
    then have "\<bar>printf_f_value x - x\<bar> = \<bar>real_of_int m / 1000000 - \<bar>x\<bar>\<bar>"
      by (simp only: abs_minus)
    with d show ?thesis by simp
  next
    case False
    then have "printf_f_value x - x = real_of_int m / 1000000 - \<bar>x\<bar>" by (simp add: v)
    with d show ?thesis by simp
  qed
qed

lemma float_to_int64_in_range:
  assumes "\<bar>x\<bar> < 2 ^ 63"
  shows "\<exists>v. float_to_int64 x = Some v \<and> \<bar>real_of_int v - x\<bar> < 1"
proof (cases "x < 0")
  case True
  from assms True have "- (2 ^ 63) \<le> \<lceil>x\<rceil>" "\<lceil>x\<rceil> < 2 ^ 63"
    by (simp_all add: le_ceiling_iff ceiling_less_iff)
  moreover have "\<bar>real_of_int \<lceil>x\<rceil> - x\<bar> < 1" by linarith
  ultimately show ?thesis using True by (simp add: float_to_int64_def)
next
  case False
  from assms False have "- (2 ^ 63) \<le> \<lfloor>x\<rfloor>" "\<lfloor>x\<rfloor> < 2 ^ 63"
    by (simp_all add: le_floor_iff floor_less_iff)
  moreover have "\<bar>real_of_int \<lfloor>x\<rfloor> - x\<bar> < 1" by linarith
  ultimately show ?thesis using False by (simp add: float_to_int64_def)
qed

lemma float_to_int64_Some:
  "float_to_int64 x = Some v \<Longrightarrow> - (2 ^ 63) \<le> v \<and> v < 2 ^ 63 \<and> \<bar>real_of_int v - x\<bar> < 1"
  by (auto simp: float_to_int64_def Let_def split: if_splits) linarith+

lemma strtok_r_None_iff: "strtok_r a d = None \<longleftrightarrow> set a \<subseteq> set d"
  by (auto simp: strtok_r_def Let_def)

lemma below_ten: "(k :: nat) < 10 \<Longrightarrow> k \<in> {0, 1, 2, 3, 4, 5, 6, 7, 8, 9}"
  by auto

lemma digit_char_props:
  "is_digit (digit_char d)" "digit_value (digit_char d) = d mod 10"
  "digit_char d \<noteq> CHR '',''" "digit_char d \<noteq> CHR ''-''" "digit_char d \<noteq> CHR ''.''"
  "CHR '','' \<noteq> digit_char d"
proof -
  have "d mod 10 < 10" by simp
  then have "d mod 10 \<in> {0, 1, 2, 3, 4, 5, 6, 7, 8, 9}" by (rule below_ten)
  then show "is_digit (digit_char d)" "digit_value (digit_char d) = d mod 10"
  "digit_char d \<noteq> CHR '',''" "digit_char d \<noteq> CHR ''-''" "digit_char d \<noteq> CHR ''.''"
  "CHR '','' \<noteq> digit_char d"
    by (auto simp: digit_char_def is_digit_def digit_value_def)
qed

lemma read_nat_snoc: "read_nat (ds @ [c]) = 10 * read_nat ds + digit_value c"
  by (simp add: read_nat_def)

lemma dec_digits_props:
  "dec_digits n \<noteq> [] \<and> list_all is_digit (dec_digits n) \<and> read_nat (dec_digits n) = n \<and>
   CHR '','' \<notin> set (dec_digits n)"
proof (induction n rule: dec_digits.induct)
  case (1 n)
  show ?case
  proof (cases "n < 10")
    case True
    then have "dec_digits n = [digit_char n]" by (simp add: dec_digits.simps)
    with True show ?thesis by (simp add: read_nat_def digit_char_props)
  next
    case False
    then have eq: "dec_digits n = dec_digits (n div 10) @ [digit_char (n mod 10)]"
      by (subst dec_digits.simps) simp
    from False "1.IH" have ih: "list_all is_digit (dec_digits (n div 10))"
      "read_nat (dec_digits (n div 10)) = n div 10" "CHR '','' \<notin> set (dec_digits (n div 10))"
      by simp_all
    from ih show ?thesis
      by (simp add: eq read_nat_snoc digit_char_props)
  qed
qed

lemma pad_digits_props:
  "length (pad_digits k m) = k \<and> list_all is_digit (pad_digits k m) \<and>
   CHR '','' \<notin> set (pad_digits k m)"
  by (induction k arbitrary: m) (simp_all add: digit_char_props)

lemma read_nat_pad_digits: "m < 10 ^ k \<Longrightarrow> read_nat (pad_digits k m) = m"
proof (induction k arbitrary: m)
  case 0
  then show ?case by (simp add: read_nat_def)
next
  case (Suc k)
  from Suc.prems have "m div 10 < 10 ^ k" by (simp add: less_mult_imp_div_less mult.commute)
  then have "read_nat (pad_digits k (m div 10)) = m div 10" by (rule Suc.IH)
  then show ?case by (simp add: read_nat_snoc digit_char_props)
qed

lemma frac_digits_props:
  "length (frac_digits m) = 6" "list_all is_digit (frac_digits m)"
  "CHR '','' \<notin> set (frac_digits m)"
  "m < 1000000 \<Longrightarrow> read_nat (frac_digits m) = m"
  using pad_digits_props [of 6 m] read_nat_pad_digits [of m 6]
  by (simp_all add: frac_digits_def)

lemma frac_digits_unfold:
  "frac_digits m =
     [digit_char (m div 10 div 10 div 10 div 10 div 10 mod 10),
      digit_char (m div 10 div 10 div 10 div 10 mod 10),
      digit_char (m div 10 div 10 div 10 mod 10),
      digit_char (m div 10 div 10 mod 10),
      digit_char (m div 10 mod 10),
      digit_char (m mod 10)]"
proof -
  have six: "(6 :: nat) = Suc (Suc (Suc (Suc (Suc (Suc 0)))))" by simp
  show ?thesis by (simp add: frac_digits_def six)
qed

lemma not_digit_point: "\<not> is_digit CHR ''.''" "\<not> is_digit CHR ''-''"
  by (simp_all add: is_digit_def)

lemma read_unsigned_decimal:
  assumes "ds \<noteq> []" and "list_all is_digit ds" and "list_all is_digit fs"
  shows "read_unsigned (ds @ CHR ''.'' # fs) =
           Some (real (read_nat ds) + real (read_nat fs) / 10 ^ length fs)"
proof -
  from assms(2) have all: "\<forall>c \<in> set ds. is_digit c" by (simp add: list_all_iff)
  have tw: "takeWhile is_digit (ds @ CHR ''.'' # fs) = ds"
    using all by (simp add: not_digit_point)
  have dw: "dropWhile is_digit (ds @ CHR ''.'' # fs) = CHR ''.'' # fs"
    using all by (simp add: not_digit_point)
  show ?thesis
    unfolding read_unsigned_def Let_def tw dw using assms(1,3) by simp
qed

lemma printf_f_body:
  "read_unsigned (dec_digits (m div 1000000) @ CHR ''.'' # frac_digits (m mod 1000000)) =
     Some (real m / 1000000)"
proof -
  have "real (m div 1000000) + real (m mod 1000000) / 1000000 = real m / 1000000"
  proof -
    have "m = 1000000 * (m div 1000000) + m mod 1000000" by simp
    then have "real m = 1000000 * real (m div 1000000) + real (m mod 1000000)"
      by (metis of_nat_add of_nat_mult of_nat_numeral)
    then show ?thesis by (simp add: field_simps)
  qed
  moreover have "m mod 1000000 < 1000000" by simp
  moreover have "read_unsigned (dec_digits (m div 1000000) @ CHR ''.'' # frac_digits (m mod 1000000))
      = Some (real (read_nat (dec_digits (m div 1000000))) +
              real (read_nat (frac_digits (m mod 1000000))) /
                10 ^ length (frac_digits (m mod 1000000)))"
    using dec_digits_props [of "m div 1000000"] frac_digits_props(2) [of "m mod 1000000"]
    by (intro read_unsigned_decimal) simp_all
  ultimately show ?thesis
    using dec_digits_props [of "m div 1000000"] frac_digits_props [of "m mod 1000000"]
    by simp
qed

lemma dec_digits_head: "\<exists>c r. dec_digits n = c # r \<and> c \<noteq> CHR ''-''"
proof -
  from dec_digits_props [of n] obtain c r where eq: "dec_digits n = c # r"
    by (cases "dec_digits n") auto
  with dec_digits_props [of n] have "is_digit c" by simp
  then have "c \<noteq> CHR ''-''" using not_digit_point by auto
  with eq show ?thesis by blast
qed

lemma read_decimal_printf_f:
  "read_decimal (printf_f x) = Some (printf_f_value x)"
proof -
  define m where "m = nat (round_half_even (\<bar>x\<bar> * 1000000))"
  let ?body = "dec_digits (m div 1000000) @ CHR ''.'' # frac_digits (m mod 1000000)"
  have body: "read_unsigned ?body = Some (real m / 1000000)" by (rule printf_f_body)
  show ?thesis
  proof (cases "x < 0")
    case True
    then have "printf_f x = CHR ''-'' # ?body"
      by (simp add: printf_f_def m_def Let_def)
    with body True show ?thesis
      by (simp add: read_decimal_def printf_f_value_def m_def)
  next
    case False
    then have p: "printf_f x = ?body"
      by (simp add: printf_f_def m_def Let_def)
    from dec_digits_head [of "m div 1000000"] obtain c r where
      h: "dec_digits (m div 1000000) = c # r" "c \<noteq> CHR ''-''" by blast
    then have "read_decimal ?body = read_unsigned ?body"
      by (simp add: read_decimal_def)
    with body p False show ?thesis
      by (simp add: printf_f_value_def m_def)
  qed
qed

lemma printf_f_no_comma: "printf_f x \<noteq> [] \<and> CHR '','' \<notin> set (printf_f x)"
  using dec_digits_props [of "nat (round_half_even (\<bar>x\<bar> * 1000000)) div 1000000"]
    frac_digits_props [of "nat (round_half_even (\<bar>x\<bar> * 1000000)) mod 1000000"]
  by (simp add: printf_f_def Let_def)

lemma strtok_r_first:
  assumes "a \<noteq> []" and "CHR '','' \<notin> set a"
  shows "strtok_r (a @ CHR '','' # b) '','' = Some (a, b)"
proof -
  from assms obtain c r where a: "a = c # r" and c: "c \<noteq> CHR '',''"
    by (cases a) auto
  have all: "\<forall>x \<in> set a. x \<notin> set '',''" using assms(2) by auto
  have dw0: "dropWhile (\<lambda>c. c \<in> set '','') (a @ CHR '','' # b) = a @ CHR '','' # b"
    using a c by simp
  have tw: "takeWhile (\<lambda>c. c \<notin> set '','') (a @ CHR '','' # b) = a"
    using all by simp
  have dw: "dropWhile (\<lambda>c. c \<notin> set '','') (a @ CHR '','' # b) = CHR '','' # b"
    using all by simp
  show ?thesis
    unfolding strtok_r_def Let_def dw0 tw dw using a by simp
qed

lemma strtok_r_last:
  assumes "b \<noteq> []" and "CHR '','' \<notin> set b"
  shows "strtok_r b '','' = Some (b, [])"
proof -
  from assms obtain c r where b: "b = c # r" and c: "c \<noteq> CHR '',''"
    by (cases b) auto
  have all: "\<forall>x \<in> set b. x \<notin> set '',''" using assms(2) by auto
  have dw0: "dropWhile (\<lambda>c. c \<in> set '','') b = b"
    using b c by simp
  have tw: "takeWhile (\<lambda>c. c \<notin> set '','') b = b"
    using all by simp
  have dw: "dropWhile (\<lambda>c. c \<notin> set '','') b = []"
    using all by simp
  show ?thesis
    unfolding strtok_r_def Let_def dw0 tw dw using b by simp
qed

lemma str_to_float_decimal_printf_f:
  "str_to_float_decimal (printf_f x) = Some (float_rnd (printf_f_value x))"
  by (simp add: str_to_float_decimal_def read_decimal_printf_f)

lemma float_rnd_error_num:
  "\<bar>float_rnd x - x\<bar> \<le> \<bar>x\<bar> / 16777216 + 1 / 100000000000000000000"
proof -
  have "(1::real) / 2 ^ 150 \<le> 1 / 100000000000000000000" by simp
  with float_rnd_error [of x] show ?thesis by simp
qed

lemma double_rnd_error_num:
  "\<bar>double_rnd x - x\<bar> \<le> \<bar>x\<bar> / 9007199254740992 + 1 / 100000000000000000000"
proof -
  have "(1::real) / 2 ^ 1075 \<le> 1 / 100000000000000000000" by simp
  with double_rnd_error [of x] show ?thesis by simp
qed

lemma rnd_step:
  fixes x y s :: real
  assumes ys: "\<bar>y - s\<bar> \<le> A" and xy: "\<bar>x - y\<bar> \<le> \<bar>y\<bar> / k + e"
    and sS: "\<bar>s\<bar> \<le> S" and k: "0 < k"
  shows "\<bar>x - s\<bar> \<le> A + (S + A) / k + e"
proof -
  have "\<bar>y\<bar> \<le> \<bar>s\<bar> + \<bar>y - s\<bar>" by simp
  with ys sS have "\<bar>y\<bar> \<le> S + A" by simp
  with k have "\<bar>y\<bar> / k \<le> (S + A) / k" by (simp add: divide_right_mono)
  moreover have "\<bar>x - s\<bar> \<le> \<bar>x - y\<bar> + \<bar>y - s\<bar>" by simp
  ultimately show ?thesis using ys xy by simp
qed

lemma round_trip_delay_bound:
  fixes v :: int
  assumes small: "\<bar>real_of_int v\<bar> \<le> 4611686018427387904"
  defines "a \<equiv> float_rnd (double_rnd (double_rnd (real_of_int v) / 1000000))"
  defines "cc \<equiv> float_rnd (float_rnd (printf_f_value a) * 1000000)"
  shows "\<bar>cc - real_of_int v\<bar> \<le> 1 + \<bar>real_of_int v\<bar> / 4194304"
    and "\<bar>cc\<bar> < 9223372036854775808"
proof -
  define w where "w = real_of_int v"
  define V where "V = \<bar>w\<bar>"
  define s where "s = w / 1000000"
  define x1 where "x1 = double_rnd w"
  define y1 where "y1 = x1 / 1000000"
  define x2 where "x2 = double_rnd y1"
  define r where "r = printf_f_value a"
  define b where "b = float_rnd r"
  define z where "z = b * 1000000"
  have a: "a = float_rnd x2" by (simp add: a_def x2_def y1_def x1_def w_def)
  have cc: "cc = float_rnd z" by (simp add: cc_def z_def b_def r_def)
  have V0: "0 \<le> V" by (simp add: V_def)
  have Vs: "V \<le> 4611686018427387904" using small by (simp add: V_def w_def)
  have sV: "\<bar>s\<bar> \<le> V / 1000000" by (simp add: s_def V_def)
  have wV: "\<bar>w\<bar> \<le> V" by (simp add: V_def)
  have k53: "(0::real) < 9007199254740992" and k24: "(0::real) < 16777216" by simp_all
  have e1: "\<bar>x1 - w\<bar> \<le> V / 9007199254740992 + 1 / 100000000000000000000"
    using double_rnd_error_num [of w] unfolding x1_def V_def .
  have "\<bar>y1 - s\<bar> = \<bar>x1 - w\<bar> / 1000000"
    by (simp add: y1_def s_def diff_divide_distrib [symmetric])
  also have "\<dots> \<le> (V / 9007199254740992 + 1 / 100000000000000000000) / 1000000"
    using e1 by (rule divide_right_mono) simp
  also have "\<dots> \<le> V / 1000000 / 9000000000000000 + 1 / 100000000000000000000"
    using V0 by (simp add: add_divide_distrib, linarith?)
  finally have y1: "\<bar>y1 - s\<bar> \<le> V / 1000000 / 9000000000000000 + 1 / 100000000000000000000" .
  have e2: "\<bar>x2 - y1\<bar> \<le> \<bar>y1\<bar> / 9007199254740992 + 1 / 100000000000000000000"
    using double_rnd_error_num [of y1] unfolding x2_def .
  have b2: "\<bar>x2 - s\<bar> \<le> V / 1000000 / 1000000000000000 + 1 / 10000000000000000000"
    by (rule order_trans [OF rnd_step [OF y1 e2 sV k53]]) (use V0 in \<open>simp add: add_divide_distrib, linarith?\<close>)
  have e3: "\<bar>a - x2\<bar> \<le> \<bar>x2\<bar> / 16777216 + 1 / 100000000000000000000"
    using float_rnd_error_num [of x2] unfolding a .
  have b3: "\<bar>a - s\<bar> \<le> V / 1000000 / 16000000 + 1 / 1000000000000000000"
    by (rule order_trans [OF rnd_step [OF b2 e3 sV k24]]) (use V0 in \<open>simp add: add_divide_distrib, linarith?\<close>)
  have e4: "\<bar>r - a\<bar> \<le> 1 / 2000000"
    unfolding r_def by (rule printf_f_value_error)
  have "\<bar>r - s\<bar> \<le> \<bar>r - a\<bar> + \<bar>a - s\<bar>" by simp
  also have "\<dots> \<le> 1 / 2000000 + (V / 1000000 / 16000000 + 1 / 1000000000000000000)"
    using e4 b3 by (rule add_mono)
  also have "\<dots> \<le> V / 1000000 / 16000000 + 500001 / 1000000000000"
    by simp
  finally have b4: "\<bar>r - s\<bar> \<le> V / 1000000 / 16000000 + 500001 / 1000000000000" .
  have e5: "\<bar>b - r\<bar> \<le> \<bar>r\<bar> / 16777216 + 1 / 100000000000000000000"
    using float_rnd_error_num [of r] unfolding b_def .
  have b5: "\<bar>b - s\<bar> \<le> V / 1000000 / 8000000 + 51 / 100000000"
    by (rule order_trans [OF rnd_step [OF b4 e5 sV k24]]) (use V0 in \<open>simp add: add_divide_distrib, linarith?\<close>)
  have "z - w = (b - s) * 1000000" by (simp add: z_def s_def left_diff_distrib)
  then have "\<bar>z - w\<bar> = \<bar>b - s\<bar> * 1000000" by (simp only: abs_mult)
  also have "\<dots> \<le> (V / 1000000 / 8000000 + 51 / 100000000) * 1000000"
    using b5 by (rule mult_right_mono) simp
  also have "\<dots> \<le> V / 8000000 + 51 / 100" by simp
  finally have bz: "\<bar>z - w\<bar> \<le> V / 8000000 + 51 / 100" .
  have e6: "\<bar>cc - z\<bar> \<le> \<bar>z\<bar> / 16777216 + 1 / 100000000000000000000"
    using float_rnd_error_num [of z] unfolding cc .
  have b6: "\<bar>cc - w\<bar> \<le> 1 + V / 4194304"
    by (rule order_trans [OF rnd_step [OF bz e6 wV k24]]) (use V0 in \<open>simp add: add_divide_distrib, linarith?\<close>)
  then show "\<bar>cc - real_of_int v\<bar> \<le> 1 + \<bar>real_of_int v\<bar> / 4194304"
    by (simp only: V_def w_def)
  have "\<bar>cc\<bar> \<le> \<bar>w\<bar> + \<bar>cc - w\<bar>" by simp
  also have "\<dots> \<le> V + (1 + V / 4194304)" using wV b6 by (rule add_mono)
  also have "\<dots> < 9223372036854775808" using Vs by linarith
  finally show "\<bar>cc\<bar> < 9223372036854775808" .
qed

lemma round_trip_decay_bound:
  "\<bar>float_rnd (printf_f_value d) - d\<bar> \<le> 1 / 1000000 + \<bar>d\<bar> / 16777216"
proof -
  define r where "r = printf_f_value d"
  have k24: "(0::real) < 16777216" by simp
  have e1: "\<bar>r - d\<bar> \<le> 1 / 2000000" unfolding r_def by (rule printf_f_value_error)
  have e2: "\<bar>float_rnd r - r\<bar> \<le> \<bar>r\<bar> / 16777216 + 1 / 100000000000000000000"
    by (rule float_rnd_error_num)
  have dd: "\<bar>d\<bar> \<le> \<bar>d\<bar>" by simp
  have n: "0 \<le> \<bar>d\<bar>" by simp
  define D where "D = \<bar>d\<bar>"
  have "1 / 2000000 + (D + 1 / 2000000) / 16777216 + 1 / 100000000000000000000
      \<le> 1 / 1000000 + D / 16777216" by (simp add: add_divide_distrib)
  then show ?thesis
    unfolding D_def r_def [symmetric]
    by (rule order_trans [OF rnd_step [OF e1 e2 dd k24]])
qed

lemma printf_f_value_micro:
  "printf_f_value (real_of_int n / 1000000) = real_of_int n / 1000000"
proof -
  have "\<bar>real_of_int n / 1000000\<bar> * 1000000 = real_of_int \<bar>n\<bar>" by simp
  then have r: "round_half_even (\<bar>real_of_int n / 1000000\<bar> * 1000000) = \<bar>n\<bar>"
    by (simp only: round_half_even_of_int)
  show ?thesis
    unfolding printf_f_value_def r by (cases "n < 0") (simp_all add: field_simps)
qed

lemma printf_f_value_fixed: "x * 1000000 \<in> \<int> \<Longrightarrow> printf_f_value x = x"
proof -
  assume "x * 1000000 \<in> \<int>"
  then obtain n :: int where "x * 1000000 = real_of_int n" by (auto elim: Ints_cases)
  then have "x = real_of_int n / 1000000" by simp
  then show "printf_f_value x = x" by (simp only: printf_f_value_micro)
qed

lemmas rnd_eval = float_rnd_def double_rnd_def fp_rnd_def flog2_def pow2_def
  round_half_even_def nat_log2.simps

lemma read_examples:
  "str_to_float_decimal ''2.0'' = Some 2"
  "str_to_float_decimal ''0.5'' = Some (1 / 2)"
  "str_to_float_decimal ''0.0000001'' = Some (14073749 / 140737488355328)"
  "str_to_float_decimal ''1'' = Some 1"
  "str_to_float_decimal ''2'' = Some 2"
  "str_to_float_decimal ''x'' = None"
  "str_to_float_decimal ''0.13'' = Some (1090519 / 8388608)"
  "str_to_float_decimal ''0.129'' = Some (8657043 / 67108864)"
  "str_to_float_decimal ''10000000000000'' = Some 9999999827968"
  "str_to_float_decimal ''2.000000'' = Some 2"
  "str_to_float_decimal ''0.500000'' = Some (1 / 2)"
  "str_to_float_decimal ''0.000000'' = Some 0"
  "str_to_float_decimal ''1.000000'' = Some 1"
  "str_to_float_decimal ''0.128999'' = Some (541061 / 4194304)"
  by (simp_all add: str_to_float_decimal_def read_decimal_def read_unsigned_def is_digit_def
      read_nat_def digit_value_def rnd_eval)

lemma strtok_r_examples:
  "strtok_r ''2.0,0.5'' '','' = Some (''2.0'', ''0.5'')"
  "strtok_r ''0.5'' '','' = Some (''0.5'', [])"
  "strtok_r ''2.0'' '','' = Some (''2.0'', [])"
  "strtok_r [] '','' = None"
  "strtok_r '',,'' '','' = None"
  "strtok_r ''x,1'' '','' = Some (''x'', ''1'')"
  "strtok_r ''0.0000001,1'' '','' = Some (''0.0000001'', ''1'')"
  "strtok_r ''1'' '','' = Some (''1'', [])"
  "strtok_r ''2.0,0.13'' '','' = Some (''2.0'', ''0.13'')"
  "strtok_r ''0.13'' '','' = Some (''0.13'', [])"
  "strtok_r ''2,0.129'' '','' = Some (''2'', ''0.129'')"
  "strtok_r ''0.129'' '','' = Some (''0.129'', [])"
  "strtok_r ''2,10000000000000'' '','' = Some (''2'', ''10000000000000'')"
  "strtok_r ''10000000000000'' '','' = Some (''10000000000000'', [])"
  "strtok_r ''2.000000,0.500000'' '','' = Some (''2.000000'', ''0.500000'')"
  "strtok_r ''0.500000'' '','' = Some (''0.500000'', [])"
  "strtok_r ''0.000000,1.000000'' '','' = Some (''0.000000'', ''1.000000'')"
  "strtok_r ''1.000000'' '','' = Some (''1.000000'', [])"
  "strtok_r ''2.000000,0.128999'' '','' = Some (''2.000000'', ''0.128999'')"
  "strtok_r ''0.128999'' '','' = Some (''0.128999'', [])"
  by (simp_all add: strtok_r_def)

lemma printf_f_examples:
  "printf_f 2 = ''2.000000''"
  "printf_f (1 / 2) = ''0.500000''"
  "printf_f (14073749 / 140737488355328) = ''0.000000''"
  "printf_f 1 = ''1.000000''"
  "printf_f (541061 / 4194304) = ''0.128999''"
  "printf_f (4398047 / 262144) = ''16.777218''"
  by (simp_all add: printf_f_def round_half_even_def frac_digits_unfold digit_char_def
      dec_digits.simps)

lemma hold_delay_examples:
  "float_to_int64 (float_rnd (1 / 2 * 1000000)) = Some 500000"
  "float_to_int64 (float_rnd (1 * 1000000)) = Some 1000000"
  "float_to_int64 (float_rnd (1090519 / 8388608 * 1000000)) = Some 129999"
  "float_to_int64 (float_rnd (8657043 / 67108864 * 1000000)) = Some 128999"
  "float_to_int64 (float_rnd (541061 / 4194304 * 1000000)) = Some 128998"
  "float_to_int64 (float_rnd (9999999827968 * 1000000)) = None"
  by (simp_all add: float_to_int64_def rnd_eval)

lemma printed_delay_examples:
  "float_rnd (double_rnd (double_rnd (real_of_int 500000) / 1000000)) = 1 / 2"
  "float_rnd (double_rnd (double_rnd (real_of_int 1000000) / 1000000)) = 1"
  "float_rnd (double_rnd (double_rnd (real_of_int 128999) / 1000000)) = 541061 / 4194304"
  "float_rnd (double_rnd (double_rnd (real_of_int 16777217) / 1000000)) = 4398047 / 262144"
  by (simp_all add: rnd_eval)

lemma parse_examples:
  "lossy_peak_parse_args str_to_float_decimal 0 heap_example (Some ''2.0,0.5'') =
     Inr (Some parsed_example, \<lparr>heap_used = 3, heap_avail = 4\<rparr>)"
  "lossy_peak_parse_args str_to_float_decimal 0 heap_example (Some ''0.0000001,1'') =
     Inr (Some slow_decay_example, \<lparr>heap_used = 3, heap_avail = 4\<rparr>)"
  "lossy_peak_parse_args str_to_float_decimal 0 heap_example (Some ''2,0.129'') =
     Inr (Some short_hold_example, \<lparr>heap_used = 3, heap_avail = 4\<rparr>)"
  by (simp_all add: lossy_peak_parse_args_def strtok_r_examples read_examples
      float_to_int64_def rnd_eval malloc_def heap_example_def parsed_example_def
      slow_decay_example_def short_hold_example_def)

lemma print_examples:
  "lossy_peak_print_args parsed_example \<lparr>heap_used = 3, heap_avail = 4\<rparr> =
     (Some ''2.000000,0.500000'', \<lparr>heap_used = 4, heap_avail = 3\<rparr>)"
  "lossy_peak_print_args slow_decay_example \<lparr>heap_used = 3, heap_avail = 4\<rparr> =
     (Some ''0.000000,1.000000'', \<lparr>heap_used = 4, heap_avail = 3\<rparr>)"
  "lossy_peak_print_args short_hold_example \<lparr>heap_used = 3, heap_avail = 4\<rparr> =
     (Some ''2.000000,0.128999'', \<lparr>heap_used = 4, heap_avail = 3\<rparr>)"
  by (simp_all add: lossy_peak_print_args_def rnd_eval printf_f_examples
      strdup_def malloc_def parsed_example_def slow_decay_example_def short_hold_example_def)

lemma hold_delay_in_range:
  assumes dl: "\<bar>dl\<bar> \<le> 9000000000000"
  shows "\<exists>us. float_to_int64 (float_rnd (dl * 1000000)) = Some us \<and>
           \<bar>real_of_int us - dl * 1000000\<bar> <
             1 + \<bar>dl * 1000000\<bar> / 2 ^ 24 + 1 / 10 ^ 20"
proof -
  define z where "z = dl * 1000000"
  define x where "x = float_rnd z"
  define Z where "Z = \<bar>z\<bar>"
  define E where "E = \<bar>x - z\<bar>"
  have e: "E \<le> Z / 16777216 + 1 / 100000000000000000000"
    unfolding E_def Z_def x_def by (rule float_rnd_error_num)
  have "Z = \<bar>dl\<bar> * 1000000" by (simp add: Z_def z_def abs_mult)
  with dl have Z: "Z \<le> 9000000000000000000" by simp
  have "\<bar>x\<bar> \<le> \<bar>z\<bar> + \<bar>x - z\<bar>" by simp
  then have "\<bar>x\<bar> \<le> Z + E" by (simp only: Z_def E_def)
  also have "\<dots> < 9223372036854775808" using e Z by linarith
  finally have "\<bar>x\<bar> < 2 ^ 63" by simp
  from float_to_int64_in_range [OF this] obtain us
    where us: "float_to_int64 x = Some us" and tr: "\<bar>real_of_int us - x\<bar> < 1"
    by blast
  have "\<bar>real_of_int us - z\<bar> \<le> \<bar>real_of_int us - x\<bar> + \<bar>x - z\<bar>" by simp
  also have "\<dots> < 1 + (Z / 16777216 + 1 / 100000000000000000000)"
    using tr e unfolding E_def by (rule add_less_le_mono)
  finally have "\<bar>real_of_int us - z\<bar> < 1 + Z / 2 ^ 24 + 1 / 10 ^ 20" by simp
  with us show ?thesis unfolding x_def Z_def z_def by blast
qed

section \<open>Serialising and parsing again (C7)\<close>

text \<open>
  Claim C7, as stated: for every text that the lossy peak parser accepts,
  serialising the context and parsing the output again gives the same
  \<open>(decay_rate, hold_delay)\<close> pair, up to the precision of the floating-point
  representation. The serialiser prints with \<^verbatim>\<open>%f\<close>, six decimals, and the parser
  cuts the product \<^verbatim>\<open>delay * 1000000\<close> down to a whole number. The text
  \<^verbatim>\<open>0.0000001,1\<close> is accepted and gives the decay rate \<open>14073749 / 2\<^sup>4\<^sup>7\<close>, the
  \<^verbatim>\<open>float\<close> nearest to \<open>10\<^sup>-\<^sup>7\<close>; it is printed as \<^verbatim>\<open>0.000000,1.000000\<close>, which parses
  to a decay rate of 0: the first context decays, the second holds its peak for
  ever. The text \<^verbatim>\<open>2,0.129\<close> is accepted and gives a hold delay of 128999
  microseconds; it is printed as \<^verbatim>\<open>2.000000,0.128999\<close>, which parses to a hold delay
  of 128998 microseconds.
\<close>

theorem lossy_peak_round_trip_counterexample:
  "lossy_peak_parse_args str_to_float_decimal 0 heap_example (Some ''0.0000001,1'') =
     Inr (Some slow_decay_example, \<lparr>heap_used = 3, heap_avail = 4\<rparr>) \<and>
   lossy_peak_print_args slow_decay_example \<lparr>heap_used = 3, heap_avail = 4\<rparr> =
     (Some ''0.000000,1.000000'', \<lparr>heap_used = 4, heap_avail = 3\<rparr>) \<and>
   lossy_peak_parse_args str_to_float_decimal 0 \<lparr>heap_used = 4, heap_avail = 3\<rparr>
       (Some ''0.000000,1.000000'') =
     Inr (Some (slow_decay_example\<lparr>decay := 0\<rparr>), \<lparr>heap_used = 5, heap_avail = 2\<rparr>) \<and>
   decay slow_decay_example = 14073749 / 140737488355328 \<and>
   decay (slow_decay_example\<lparr>decay := 0\<rparr>) \<noteq> decay slow_decay_example \<and>
   lossy_peak_parse_args str_to_float_decimal 0 heap_example (Some ''2,0.129'') =
     Inr (Some short_hold_example, \<lparr>heap_used = 3, heap_avail = 4\<rparr>) \<and>
   lossy_peak_print_args short_hold_example \<lparr>heap_used = 3, heap_avail = 4\<rparr> =
     (Some ''2.000000,0.128999'', \<lparr>heap_used = 4, heap_avail = 3\<rparr>) \<and>
   lossy_peak_parse_args str_to_float_decimal 0 \<lparr>heap_used = 4, heap_avail = 3\<rparr>
       (Some ''2.000000,0.128999'') =
     Inr (Some (short_hold_example\<lparr>delay_us := 128998\<rparr>),
          \<lparr>heap_used = 5, heap_avail = 2\<rparr>) \<and>
   delay_us short_hold_example = 128999 \<and>
   delay_us (short_hold_example\<lparr>delay_us := 128998\<rparr>) \<noteq> delay_us short_hold_example"
proof -
  have a: "lossy_peak_parse_args str_to_float_decimal 0 \<lparr>heap_used = 4, heap_avail = 3\<rparr>
       (Some ''0.000000,1.000000'') =
     Inr (Some (slow_decay_example\<lparr>decay := 0\<rparr>), \<lparr>heap_used = 5, heap_avail = 2\<rparr>)"
    by (simp add: lossy_peak_parse_args_def strtok_r_examples read_examples
        float_to_int64_def rnd_eval malloc_def slow_decay_example_def)
  have b: "lossy_peak_parse_args str_to_float_decimal 0 \<lparr>heap_used = 4, heap_avail = 3\<rparr>
       (Some ''2.000000,0.128999'') =
     Inr (Some (short_hold_example\<lparr>delay_us := 128998\<rparr>),
          \<lparr>heap_used = 5, heap_avail = 2\<rparr>)"
    by (simp add: lossy_peak_parse_args_def strtok_r_examples read_examples
        float_to_int64_def rnd_eval malloc_def short_hold_example_def)
  have c: "decay slow_decay_example = 14073749 / 140737488355328"
    "delay_us short_hold_example = 128999"
    by (simp_all add: slow_decay_example_def short_hold_example_def)
  from a b c show ?thesis
    by (simp add: parse_examples print_examples)
qed

text \<open>
  Claim C7, amended: for every text that the lossy peak parser accepts, serialising
  the resulting context (\<^verbatim>\<open>lossy_peak_print_args\<close>) gives a text that the parser
  accepts again. The decay rate of the context built from it is the \<^verbatim>\<open>float\<close> nearest
  to the first decay rate rounded to six decimals, as \<^verbatim>\<open>%f\<close> prints it: it is within
  \<open>10\<^sup>-\<^sup>6 + |decay| / 2\<^sup>2\<^sup>4\<close> of the first, and equal to it when the first is a \<^verbatim>\<open>float\<close>
  and a whole number of millionths. The hold delay is the printed delay, read as a
  \<^verbatim>\<open>float\<close>, multiplied by \<open>10\<^sup>6\<close> in \<^verbatim>\<open>float\<close> and cut down to a whole number; it is
  within \<open>2 + |delay_us| / 2\<^sup>2\<^sup>2\<close> microseconds of the first. This is for a number
  reader that returns the \<^verbatim>\<open>float\<close> nearest to the decimal number printed, a hold
  delay of at most \<open>2\<^sup>6\<^sup>2\<close> microseconds, a serialised text that fits the 128-byte
  buffer, and a heap that serves the allocations.
\<close>

theorem lossy_peak_args_round_trip:
  assumes acc: "lossy_peak_parse_args stf t h (Some text) = Inr (Some c, h1)"
    and rd: "\<forall>x. stf (printf_f x) = Some (float_rnd (printf_f_value x))"
    and prt: "lossy_peak_print_args c h1 = (Some out, h2)"
    and fits: "length (printf_f (decay c)) +
               length (printf_f (float_rnd (double_rnd
                 (double_rnd (real_of_int (delay_us c)) / 1000000)))) < 127"
    and small: "\<bar>delay_us c\<bar> \<le> 2 ^ 62"
    and room: "0 < heap_avail h2"
  shows "\<exists>c' h3. lossy_peak_parse_args stf t' h2 (Some out) = Inr (Some c', h3) \<and>
           decay c' = float_rnd (printf_f_value (decay c)) \<and>
           \<bar>decay c' - decay c\<bar> \<le> 1 / 1000000 + \<bar>decay c\<bar> / 2 ^ 24 \<and>
           (float_rnd (decay c) = decay c \<and> decay c * 1000000 \<in> \<int> \<longrightarrow>
              decay c' = decay c) \<and>
           float_to_int64 (float_rnd (float_rnd (printf_f_value (float_rnd (double_rnd
               (double_rnd (real_of_int (delay_us c)) / 1000000)))) * 1000000)) =
             Some (delay_us c') \<and>
           \<bar>real_of_int (delay_us c') - real_of_int (delay_us c)\<bar> \<le>
             2 + \<bar>real_of_int (delay_us c)\<bar> / 2 ^ 22"
proof -
  define a where "a = float_rnd (double_rnd (double_rnd (real_of_int (delay_us c)) / 1000000))"
  define cc where "cc = float_rnd (float_rnd (printf_f_value a) * 1000000)"
  define d' where "d' = float_rnd (printf_f_value (decay c))"
  let ?p1 = "printf_f (decay c)"
  let ?p2 = "printf_f a"
  from fits have "take 127 (?p1 @ CHR '','' # ?p2) = ?p1 @ CHR '','' # ?p2"
    by (simp add: a_def)
  with prt have out: "out = ?p1 @ CHR '','' # ?p2"
    by (simp add: lossy_peak_print_args_def strdup_def a_def split: option.splits)
  have t1: "strtok_r out '','' = Some (?p1, ?p2)"
    unfolding out using printf_f_no_comma [of "decay c"] by (intro strtok_r_first) simp_all
  have t2: "strtok_r ?p2 '','' = Some (?p2, [])"
    using printf_f_no_comma [of a] by (intro strtok_r_last) simp_all
  from rd have r1: "stf ?p1 = Some d'" by (simp add: d'_def)
  from rd have r2: "stf ?p2 = Some (float_rnd (printf_f_value a))" by simp
  from room have m: "malloc h2 =
      Some (h2\<lparr>heap_used := heap_used h2 + 1, heap_avail := heap_avail h2 - 1\<rparr>)"
    by (simp add: malloc_def)
  from small have sm: "\<bar>real_of_int (delay_us c)\<bar> \<le> 4611686018427387904"
  proof -
    from small have "real_of_int \<bar>delay_us c\<bar> \<le> real_of_int (2 ^ 62)"
      by (simp only: of_int_le_iff)
    then show ?thesis by simp
  qed
  note bd = round_trip_delay_bound [OF sm, folded a_def, folded cc_def]
  from bd(2) have "\<bar>cc\<bar> < 2 ^ 63" by simp
  from float_to_int64_in_range [OF this] obtain us
    where us: "float_to_int64 cc = Some us" and tr: "\<bar>real_of_int us - cc\<bar> < 1"
    by blast
  have "\<bar>real_of_int us - real_of_int (delay_us c)\<bar> \<le>
      \<bar>real_of_int us - cc\<bar> + \<bar>cc - real_of_int (delay_us c)\<bar>"
    by simp
  also have "\<dots> \<le> 1 + (1 + \<bar>real_of_int (delay_us c)\<bar> / 4194304)"
    using tr bd(1) by (intro add_mono) simp_all
  finally have dbound: "\<bar>real_of_int us - real_of_int (delay_us c)\<bar> \<le>
      2 + \<bar>real_of_int (delay_us c)\<bar> / 2 ^ 22"
    by simp
  have dec: "\<bar>d' - decay c\<bar> \<le> 1 / 1000000 + \<bar>decay c\<bar> / 2 ^ 24"
    using round_trip_decay_bound [of "decay c"] by (simp add: d'_def)
  have fixed: "float_rnd (decay c) = decay c \<and> decay c * 1000000 \<in> \<int> \<longrightarrow> d' = decay c"
    by (simp add: d'_def printf_f_value_fixed)
  have "lossy_peak_parse_args stf t' h2 (Some out) =
      Inr (Some \<lparr>peak = 0, delay_us = us, decay = d', last_t = t', peak_t = 0, state = 0\<rparr>,
           h2\<lparr>heap_used := heap_used h2 + 1, heap_avail := heap_avail h2 - 1\<rparr>)"
    by (simp add: lossy_peak_parse_args_def t1 t2 r1 r2 m us [unfolded cc_def])
  with dec fixed dbound us show ?thesis
    unfolding a_def [symmetric] cc_def [symmetric] d'_def [symmetric] by simp
qed

theorem lossy_peak_args_round_trip_witness:
  "lossy_peak_parse_args str_to_float_decimal 0 heap_example (Some ''2.0,0.5'') =
     Inr (Some parsed_example, \<lparr>heap_used = 3, heap_avail = 4\<rparr>) \<and>
   (\<forall>x. str_to_float_decimal (printf_f x) = Some (float_rnd (printf_f_value x))) \<and>
   lossy_peak_print_args parsed_example \<lparr>heap_used = 3, heap_avail = 4\<rparr> =
     (Some ''2.000000,0.500000'', \<lparr>heap_used = 4, heap_avail = 3\<rparr>) \<and>
   length (printf_f (decay parsed_example)) +
     length (printf_f (float_rnd (double_rnd
       (double_rnd (real_of_int (delay_us parsed_example)) / 1000000)))) < 127 \<and>
   \<bar>delay_us parsed_example\<bar> \<le> 2 ^ 62 \<and>
   0 < heap_avail \<lparr>heap_used = 4, heap_avail = 3\<rparr> \<and>
   float_rnd (decay parsed_example) = decay parsed_example \<and>
   decay parsed_example * 1000000 \<in> \<int> \<and>
   (\<exists>c' h3. lossy_peak_parse_args str_to_float_decimal 7 \<lparr>heap_used = 4, heap_avail = 3\<rparr>
                (Some ''2.000000,0.500000'') = Inr (Some c', h3) \<and>
             decay c' = 2 \<and> delay_us c' = 500000)"
proof -
  have f: "decay parsed_example = 2" "delay_us parsed_example = 500000"
    by (simp_all add: parsed_example_def)
  have p: "float_rnd (double_rnd (double_rnd (real_of_int 500000) / 1000000)) = 1 / 2"
    by (simp add: rnd_eval)
  have fits: "length (printf_f (decay parsed_example)) +
     length (printf_f (float_rnd (double_rnd
       (double_rnd (real_of_int (delay_us parsed_example)) / 1000000)))) < 127"
    unfolding f p by (simp add: printf_f_examples)
  have small: "\<bar>delay_us parsed_example\<bar> \<le> 2 ^ 62" by (simp add: f)
  have room: "0 < heap_avail \<lparr>heap_used = 4, heap_avail = 3\<rparr>" by simp
  have rd: "\<forall>x. str_to_float_decimal (printf_f x) = Some (float_rnd (printf_f_value x))"
    by (simp add: str_to_float_decimal_printf_f)
  have fl: "float_rnd (decay parsed_example) = decay parsed_example"
    unfolding f by (simp add: rnd_eval)
  have mi: "decay parsed_example * 1000000 \<in> \<int>"
    unfolding f by simp
  have v: "printf_f_value (1 / 2) = 1 / 2"
    by (simp add: printf_f_value_def round_half_even_def)
  have q: "float_to_int64 (float_rnd (float_rnd (1 / 2) * 1000000)) = Some 500000"
    by (simp add: float_to_int64_def rnd_eval)
  from lossy_peak_args_round_trip [OF parse_examples(1) rd print_examples(1) fits small room,
      of 7]
  obtain c' h3 where
    r: "lossy_peak_parse_args str_to_float_decimal 7 \<lparr>heap_used = 4, heap_avail = 3\<rparr>
          (Some ''2.000000,0.500000'') = Inr (Some c', h3)"
    and d: "float_rnd (decay parsed_example) = decay parsed_example \<and>
            decay parsed_example * 1000000 \<in> \<int> \<longrightarrow> decay c' = decay parsed_example"
    and u: "float_to_int64 (float_rnd (float_rnd (printf_f_value (float_rnd (double_rnd
               (double_rnd (real_of_int (delay_us parsed_example)) / 1000000)))) * 1000000)) =
             Some (delay_us c')"
    by blast
  from d fl mi have "decay c' = 2" by (simp only: f) 
  moreover from u have "delay_us c' = 500000"
    unfolding f p v q by simp
  ultimately have "\<exists>c' h3. lossy_peak_parse_args str_to_float_decimal 7
        \<lparr>heap_used = 4, heap_avail = 3\<rparr> (Some ''2.000000,0.500000'') = Inr (Some c', h3) \<and>
      decay c' = 2 \<and> delay_us c' = 500000"
    using r by blast
  with fits small room fl mi rd show ?thesis
    by (simp add: parse_examples print_examples)
qed

section \<open>Creating a context (C8)\<close>

text \<open>
  Claim C8. For every configuration text that is absent (null) or malformed (one of
  the two comma-separated fields is missing, or one of them does not parse as a
  number), \<^verbatim>\<open>lossy_peak_parse_args\<close>, and \<^verbatim>\<open>filter_parse_args\<close> through it, returns null
  and allocates nothing: the heap is as before, as it is after every null return,
  allocation failure included. A field is missing when \<^verbatim>\<open>strtok_r\<close> finds no token,
  that is when the text left holds nothing but commas. On every success the result
  is a fresh block holding a context with \<open>peak = 0\<close>, phase TRACKING (\<open>state = 0\<close>),
  the decay rate as parsed and, as hold delay, the \<^verbatim>\<open>float\<close> product of the parsed
  delay and \<open>10\<^sup>6\<close> cut down to a whole number of microseconds, a value of
  \<^verbatim>\<open>int64_t\<close>. A text with two fields that parse succeeds when the heap has room and
  that product has an integer part in the range of \<^verbatim>\<open>int64_t\<close>, which it has for
  every delay of at most \<open>9 \<times> 10\<^sup>1\<^sup>2\<close> seconds; the stored delay is then less than
  \<open>1 + |delay \<times> 10\<^sup>6| / 2\<^sup>2\<^sup>4 + 10\<^sup>-\<^sup>2\<^sup>0\<close> microseconds from the parsed one. Outside
  that range the conversion, and with it the call, has no defined result. This
  holds for every number reader \<open>stf\<close>.
\<close>

theorem lossy_peak_parse_args_result:
  "(args = None \<longrightarrow> lossy_peak_parse_args stf t h args = Inr (None, h)) \<and>
   (args = Some a \<and> strtok_r a '','' = None \<longrightarrow>
      lossy_peak_parse_args stf t h args = Inr (None, h)) \<and>
   (args = Some a \<and> strtok_r a '','' = Some (tok, sv) \<and> stf tok = None \<longrightarrow>
      lossy_peak_parse_args stf t h args = Inr (None, h)) \<and>
   (args = Some a \<and> strtok_r a '','' = Some (tok, sv) \<and> strtok_r sv '','' = None \<longrightarrow>
      lossy_peak_parse_args stf t h args = Inr (None, h)) \<and>
   (args = Some a \<and> strtok_r a '','' = Some (tok, sv) \<and>
    strtok_r sv '','' = Some (tok2, sv2) \<and> stf tok2 = None \<longrightarrow>
      lossy_peak_parse_args stf t h args = Inr (None, h)) \<and>
   (\<forall>h'. lossy_peak_parse_args stf t h args = Inr (None, h') \<longrightarrow> h' = h) \<and>
   (args = Some a \<and> strtok_r a '','' = Some (tok, sv) \<and> stf tok = Some d \<and>
    strtok_r sv '','' = Some (tok2, sv2) \<and> stf tok2 = Some dl \<and> 0 < heap_avail h \<longrightarrow>
      (\<forall>us. float_to_int64 (float_rnd (dl * 1000000)) = Some us \<longrightarrow>
         lossy_peak_parse_args stf t h args =
           Inr (Some \<lparr>peak = 0, delay_us = us, decay = d, last_t = t, peak_t = 0, state = 0\<rparr>,
                h\<lparr>heap_used := heap_used h + 1, heap_avail := heap_avail h - 1\<rparr>)) \<and>
      (float_to_int64 (float_rnd (dl * 1000000)) = None \<longrightarrow>
         lossy_peak_parse_args stf t h args = Inl ConversionRange) \<and>
      (\<bar>dl\<bar> \<le> 9000000000000 \<longrightarrow>
         (\<exists>us. float_to_int64 (float_rnd (dl * 1000000)) = Some us \<and>
            \<bar>real_of_int us - dl * 1000000\<bar> <
              1 + \<bar>dl * 1000000\<bar> / 2 ^ 24 + 1 / 10 ^ 20))) \<and>
   (\<forall>c h'. lossy_peak_parse_args stf t h args = Inr (Some c, h') \<longrightarrow>
      peak c = 0 \<and> state c = 0 \<and> last_t c = t \<and> peak_t c = 0 \<and>
      heap_used h' = heap_used h + 1 \<and>
      - (2 ^ 63) \<le> delay_us c \<and> delay_us c < 2 ^ 63 \<and>
      (\<exists>a tok sv tok2 sv2 d dl.
         args = Some a \<and> strtok_r a '','' = Some (tok, sv) \<and> stf tok = Some d \<and>
         strtok_r sv '','' = Some (tok2, sv2) \<and> stf tok2 = Some dl \<and>
         decay c = d \<and> float_to_int64 (float_rnd (dl * 1000000)) = Some (delay_us c))) \<and>
   filter_parse_args stf t h FILTER_LOSSYPEAK args = lossy_peak_parse_args stf t h args \<and>
   filter_parse_args stf t h FILTER_NONE args = Inr (None, h)"
proof -
  have disp: "filter_parse_args stf t h FILTER_LOSSYPEAK args = lossy_peak_parse_args stf t h args"
    "filter_parse_args stf t h FILTER_NONE args = Inr (None, h)"
    by (simp_all add: filter_parse_args_def filters_at_def filters_def FILTER_NONE_def
        FILTER_LOSSYPEAK_def)
  have fail: "(args = None \<longrightarrow> lossy_peak_parse_args stf t h args = Inr (None, h)) \<and>
   (args = Some a \<and> strtok_r a '','' = None \<longrightarrow>
      lossy_peak_parse_args stf t h args = Inr (None, h)) \<and>
   (args = Some a \<and> strtok_r a '','' = Some (tok, sv) \<and> stf tok = None \<longrightarrow>
      lossy_peak_parse_args stf t h args = Inr (None, h)) \<and>
   (args = Some a \<and> strtok_r a '','' = Some (tok, sv) \<and> strtok_r sv '','' = None \<longrightarrow>
      lossy_peak_parse_args stf t h args = Inr (None, h)) \<and>
   (args = Some a \<and> strtok_r a '','' = Some (tok, sv) \<and>
    strtok_r sv '','' = Some (tok2, sv2) \<and> stf tok2 = None \<longrightarrow>
      lossy_peak_parse_args stf t h args = Inr (None, h))"
    by (simp add: lossy_peak_parse_args_def split: option.splits)
  have null: "\<forall>h'. lossy_peak_parse_args stf t h args = Inr (None, h') \<longrightarrow> h' = h"
    by (auto simp: lossy_peak_parse_args_def split: option.splits prod.splits)
  have ok: "args = Some a \<and> strtok_r a '','' = Some (tok, sv) \<and> stf tok = Some d \<and>
    strtok_r sv '','' = Some (tok2, sv2) \<and> stf tok2 = Some dl \<and> 0 < heap_avail h \<longrightarrow>
      (\<forall>us. float_to_int64 (float_rnd (dl * 1000000)) = Some us \<longrightarrow>
         lossy_peak_parse_args stf t h args =
           Inr (Some \<lparr>peak = 0, delay_us = us, decay = d, last_t = t, peak_t = 0, state = 0\<rparr>,
                h\<lparr>heap_used := heap_used h + 1, heap_avail := heap_avail h - 1\<rparr>)) \<and>
      (float_to_int64 (float_rnd (dl * 1000000)) = None \<longrightarrow>
         lossy_peak_parse_args stf t h args = Inl ConversionRange)"
    by (simp add: lossy_peak_parse_args_def malloc_def)
  have rng: "\<bar>dl\<bar> \<le> 9000000000000 \<longrightarrow>
         (\<exists>us. float_to_int64 (float_rnd (dl * 1000000)) = Some us \<and>
            \<bar>real_of_int us - dl * 1000000\<bar> <
              1 + \<bar>dl * 1000000\<bar> / 2 ^ 24 + 1 / 10 ^ 20)"
    using hold_delay_in_range [of dl] by blast
  have succ: "\<forall>c h'. lossy_peak_parse_args stf t h args = Inr (Some c, h') \<longrightarrow>
      peak c = 0 \<and> state c = 0 \<and> last_t c = t \<and> peak_t c = 0 \<and>
      heap_used h' = heap_used h + 1 \<and>
      - (2 ^ 63) \<le> delay_us c \<and> delay_us c < 2 ^ 63 \<and>
      (\<exists>a tok sv tok2 sv2 d dl.
         args = Some a \<and> strtok_r a '','' = Some (tok, sv) \<and> stf tok = Some d \<and>
         strtok_r sv '','' = Some (tok2, sv2) \<and> stf tok2 = Some dl \<and>
         decay c = d \<and> float_to_int64 (float_rnd (dl * 1000000)) = Some (delay_us c))"
  proof (intro allI impI)
    fix c h'
    assume r: "lossy_peak_parse_args stf t h args = Inr (Some c, h')"
    then obtain a tok sv tok2 sv2 d dl us where
      p: "args = Some a" "strtok_r a '','' = Some (tok, sv)" "stf tok = Some d"
         "strtok_r sv '','' = Some (tok2, sv2)" "stf tok2 = Some dl"
         "float_to_int64 (float_rnd (dl * 1000000)) = Some us"
         "malloc h = Some h'"
         "c = \<lparr>peak = 0, delay_us = us, decay = d, last_t = t, peak_t = 0, state = 0\<rparr>"
      by (auto simp: lossy_peak_parse_args_def split: option.splits prod.splits)
    from p(7) have hu: "heap_used h' = heap_used h + 1"
      by (auto simp: malloc_def split: if_splits)
    from float_to_int64_Some [OF p(6)] have ru: "- (2 ^ 63) \<le> us" "us < 2 ^ 63"
      by simp_all
    from p hu ru show "peak c = 0 \<and> state c = 0 \<and> last_t c = t \<and> peak_t c = 0 \<and>
      heap_used h' = heap_used h + 1 \<and>
      - (2 ^ 63) \<le> delay_us c \<and> delay_us c < 2 ^ 63 \<and>
      (\<exists>a tok sv tok2 sv2 d dl.
         args = Some a \<and> strtok_r a '','' = Some (tok, sv) \<and> stf tok = Some d \<and>
         strtok_r sv '','' = Some (tok2, sv2) \<and> stf tok2 = Some dl \<and>
         decay c = d \<and> float_to_int64 (float_rnd (dl * 1000000)) = Some (delay_us c))"
      by simp
  qed
  from disp fail null ok rng succ show ?thesis by blast
qed

theorem lossy_peak_parse_args_result_witness:
  "lossy_peak_parse_args str_to_float_decimal 0 heap_example None = Inr (None, heap_example) \<and>
   strtok_r '',,'' '','' = None \<and>
   lossy_peak_parse_args str_to_float_decimal 0 heap_example (Some '',,'') =
     Inr (None, heap_example) \<and>
   strtok_r ''x,1'' '','' = Some (''x'', ''1'') \<and> str_to_float_decimal ''x'' = None \<and>
   lossy_peak_parse_args str_to_float_decimal 0 heap_example (Some ''x,1'') =
     Inr (None, heap_example) \<and>
   strtok_r ''2.0'' '','' = Some (''2.0'', []) \<and> strtok_r [] '','' = None \<and>
   lossy_peak_parse_args str_to_float_decimal 0 heap_example (Some ''2.0'') =
     Inr (None, heap_example) \<and>
   strtok_r ''2.0,0.5'' '','' = Some (''2.0'', ''0.5'') \<and>
   str_to_float_decimal ''2.0'' = Some 2 \<and>
   strtok_r ''0.5'' '','' = Some (''0.5'', []) \<and>
   str_to_float_decimal ''0.5'' = Some (1 / 2) \<and>
   0 < heap_avail heap_example \<and>
   float_to_int64 (float_rnd (1 / 2 * 1000000)) = Some 500000 \<and>
   lossy_peak_parse_args str_to_float_decimal 0 heap_example (Some ''2.0,0.5'') =
     Inr (Some \<lparr>peak = 0, delay_us = 500000, decay = 2, last_t = 0, peak_t = 0, state = 0\<rparr>,
          \<lparr>heap_used = 3, heap_avail = 4\<rparr>) \<and>
   strtok_r ''2.0,0.13'' '','' = Some (''2.0'', ''0.13'') \<and>
   strtok_r ''0.13'' '','' = Some (''0.13'', []) \<and>
   str_to_float_decimal ''0.13'' = Some (1090519 / 8388608) \<and>
   float_to_int64 (float_rnd (1090519 / 8388608 * 1000000)) = Some 129999 \<and>
   lossy_peak_parse_args str_to_float_decimal 0 heap_example (Some ''2.0,0.13'') =
     Inr (Some \<lparr>peak = 0, delay_us = 129999, decay = 2, last_t = 0, peak_t = 0, state = 0\<rparr>,
          \<lparr>heap_used = 3, heap_avail = 4\<rparr>) \<and>
   strtok_r ''2,10000000000000'' '','' = Some (''2'', ''10000000000000'') \<and>
   str_to_float_decimal ''2'' = Some 2 \<and>
   strtok_r ''10000000000000'' '','' = Some (''10000000000000'', []) \<and>
   str_to_float_decimal ''10000000000000'' = Some 9999999827968 \<and>
   float_to_int64 (float_rnd (9999999827968 * 1000000)) = None \<and>
   lossy_peak_parse_args str_to_float_decimal 0 heap_example (Some ''2,10000000000000'') =
     Inl ConversionRange \<and>
   \<bar>1 / 2 :: real\<bar> \<le> 9000000000000 \<and>
   (\<exists>us. float_to_int64 (float_rnd (1 / 2 * 1000000)) = Some us \<and>
      \<bar>real_of_int us - 1 / 2 * 1000000\<bar> < 1 + \<bar>1 / 2 * 1000000\<bar> / 2 ^ 24 + 1 / 10 ^ 20) \<and>
   filter_parse_args str_to_float_decimal 0 heap_example FILTER_LOSSYPEAK (Some ''2.0'') =
     Inr (None, heap_example)"
proof -
  note T = lossy_peak_parse_args_result
    [where stf = str_to_float_decimal and t = 0 and h = heap_example]
  note e = strtok_r_examples read_examples
  have room: "0 < heap_avail heap_example" by (simp add: heap_example_def)
  have q1: "float_to_int64 (float_rnd (1 / 2 * 1000000)) = Some 500000"
    by (simp add: float_to_int64_def rnd_eval)
  have q2: "float_to_int64 (float_rnd (1090519 / 8388608 * 1000000)) = Some 129999"
    by (simp add: float_to_int64_def rnd_eval)
  have q3: "float_to_int64 (float_rnd (9999999827968 * 1000000)) = None"
    by (simp add: float_to_int64_def rnd_eval)
  from T [where args = None] have a:
    "lossy_peak_parse_args str_to_float_decimal 0 heap_example None = Inr (None, heap_example)"
    by simp
  from T [where args = "Some '',,''" and a = "'',,''"] have b:
    "lossy_peak_parse_args str_to_float_decimal 0 heap_example (Some '',,'') =
       Inr (None, heap_example)"
    by (simp add: e)
  from T [where args = "Some ''x,1''" and a = "''x,1''" and tok = "''x''" and sv = "''1''"]
  have c:
    "lossy_peak_parse_args str_to_float_decimal 0 heap_example (Some ''x,1'') =
       Inr (None, heap_example)"
    by (simp add: e)
  from T [where args = "Some ''2.0''" and a = "''2.0''" and tok = "''2.0''" and sv = "[]"]
  have d:
    "lossy_peak_parse_args str_to_float_decimal 0 heap_example (Some ''2.0'') =
       Inr (None, heap_example)"
    by (simp add: e)
  note S1 = T [where args = "Some ''2.0,0.5''" and a = "''2.0,0.5''" and tok = "''2.0''"
      and sv = "''0.5''" and ?tok2.0 = "''0.5''" and ?sv2.0 = "[]" and d = 2 and dl = "1 / 2",
      THEN conjunct2, THEN conjunct2, THEN conjunct2, THEN conjunct2, THEN conjunct2,
      THEN conjunct2, THEN conjunct1, THEN mp]
  have pre1: "Some ''2.0,0.5'' = Some ''2.0,0.5'' \<and>
      strtok_r ''2.0,0.5'' '','' = Some (''2.0'', ''0.5'') \<and>
      str_to_float_decimal ''2.0'' = Some 2 \<and>
      strtok_r ''0.5'' '','' = Some (''0.5'', []) \<and>
      str_to_float_decimal ''0.5'' = Some (1 / 2) \<and> 0 < heap_avail heap_example"
    using room by (simp add: e)
  from S1 [OF pre1, THEN conjunct1, THEN spec, of 500000, THEN mp, OF q1]
  have s:
    "lossy_peak_parse_args str_to_float_decimal 0 heap_example (Some ''2.0,0.5'') =
     Inr (Some \<lparr>peak = 0, delay_us = 500000, decay = 2, last_t = 0, peak_t = 0, state = 0\<rparr>,
          \<lparr>heap_used = 3, heap_avail = 4\<rparr>)"
    by (simp add: heap_example_def)
  have b0: "\<bar>1 / 2 :: real\<bar> \<le> 9000000000000" by simp
  note r = S1 [OF pre1, THEN conjunct2, THEN conjunct2, THEN mp, OF b0]
  note S2 = T [where args = "Some ''2.0,0.13''" and a = "''2.0,0.13''" and tok = "''2.0''"
      and sv = "''0.13''" and ?tok2.0 = "''0.13''" and ?sv2.0 = "[]" and d = 2
      and dl = "1090519 / 8388608",
      THEN conjunct2, THEN conjunct2, THEN conjunct2, THEN conjunct2, THEN conjunct2,
      THEN conjunct2, THEN conjunct1, THEN mp]
  have pre2: "Some ''2.0,0.13'' = Some ''2.0,0.13'' \<and>
      strtok_r ''2.0,0.13'' '','' = Some (''2.0'', ''0.13'') \<and>
      str_to_float_decimal ''2.0'' = Some 2 \<and>
      strtok_r ''0.13'' '','' = Some (''0.13'', []) \<and>
      str_to_float_decimal ''0.13'' = Some (1090519 / 8388608) \<and> 0 < heap_avail heap_example"
    using room by (simp add: e)
  from S2 [OF pre2, THEN conjunct1, THEN spec, of 129999, THEN mp, OF q2]
  have s2:
    "lossy_peak_parse_args str_to_float_decimal 0 heap_example (Some ''2.0,0.13'') =
     Inr (Some \<lparr>peak = 0, delay_us = 129999, decay = 2, last_t = 0, peak_t = 0, state = 0\<rparr>,
          \<lparr>heap_used = 3, heap_avail = 4\<rparr>)"
    by (simp add: heap_example_def)
  note S3 = T [where args = "Some ''2,10000000000000''" and a = "''2,10000000000000''"
      and tok = "''2''" and sv = "''10000000000000''" and ?tok2.0 = "''10000000000000''"
      and ?sv2.0 = "[]" and d = 2 and dl = "9999999827968",
      THEN conjunct2, THEN conjunct2, THEN conjunct2, THEN conjunct2, THEN conjunct2,
      THEN conjunct2, THEN conjunct1, THEN mp]
  have pre3: "Some ''2,10000000000000'' = Some ''2,10000000000000'' \<and>
      strtok_r ''2,10000000000000'' '','' = Some (''2'', ''10000000000000'') \<and>
      str_to_float_decimal ''2'' = Some 2 \<and>
      strtok_r ''10000000000000'' '','' = Some (''10000000000000'', []) \<and>
      str_to_float_decimal ''10000000000000'' = Some 9999999827968 \<and>
      0 < heap_avail heap_example"
    using room by (simp add: e)
  from S3 [OF pre3, THEN conjunct2, THEN conjunct1, THEN mp, OF q3]
  have s3:
    "lossy_peak_parse_args str_to_float_decimal 0 heap_example (Some ''2,10000000000000'') =
     Inl ConversionRange" .
  from T [where args = "Some ''2.0''"] d have f:
    "filter_parse_args str_to_float_decimal 0 heap_example FILTER_LOSSYPEAK (Some ''2.0'') =
       Inr (None, heap_example)"
    by simp
  show ?thesis
    apply (intro conjI)
    apply (rule a)
    apply (simp add: e)
    apply (rule b)
    apply (simp add: e)
    apply (simp add: e)
    apply (rule c)
    apply (simp add: e)
    apply (simp add: e)
    apply (rule d)
    apply (simp add: e)
    apply (simp add: e)
    apply (simp add: e)
    apply (simp add: e)
    apply (rule room)
    apply (rule q1)
    apply (rule s)
    apply (simp add: e)
    apply (simp add: e)
    apply (simp add: e)
    apply (rule q2)
    apply (rule s2)
    apply (simp add: e)
    apply (simp add: e)
    apply (simp add: e)
    apply (simp add: e)
    apply (rule q3)
    apply (rule s3)
    apply (rule b0)
    apply (rule r)
    apply (rule f)
    done
qed

end
